theory Spec2Isabelle
  imports Main
begin

section \<open>Python values\<close>

text \<open>
  The conversation record (\<open>ConversationState\<close>) is a plain dictionary at run time, and the
  oracle's replies are decoded JSON. Both hold dynamically typed values, so the model has
  one type of Python values: \<open>None\<close>, booleans, integers, strings, lists and dictionaries
  with string keys (in insertion order). Floating-point numbers are left out.

  A \<open>char\<close> stands for one code point below 256; Python text with code points beyond
  that is outside the model. The literal messages of the source contain accented letters
  and emoji: in the definitions below every character of a literal that is not ASCII is
  written as a question mark, one for one.
\<close>

datatype pyval =
    PNone
  | PBool bool
  | PInt int
  | PStr string
  | PList "pyval list"
  | PDict "(string \<times> pyval) list"

text \<open>Truth value testing, as \<open>if x:\<close>, \<open>not x\<close>, \<open>x or y\<close> and \<open>all(...)\<close> use it.\<close>

fun truthy :: "pyval \<Rightarrow> bool" where
  "truthy PNone = False"
| "truthy (PBool b) = b"
| "truthy (PInt n) = (n \<noteq> 0)"
| "truthy (PStr s) = (s \<noteq> [])"
| "truthy (PList xs) = (xs \<noteq> [])"
| "truthy (PDict kvs) = (kvs \<noteq> [])"

text \<open>\<open>d.get(k)\<close> and \<open>d.get(k, default)\<close> on a dictionary.\<close>

definition dict_get :: "(string \<times> pyval) list \<Rightarrow> string \<Rightarrow> pyval" where
  "dict_get kvs k = (case map_of kvs k of None \<Rightarrow> PNone | Some v \<Rightarrow> v)"

definition dict_get_d :: "(string \<times> pyval) list \<Rightarrow> string \<Rightarrow> pyval \<Rightarrow> pyval" where
  "dict_get_d kvs k d = (case map_of kvs k of None \<Rightarrow> d | Some v \<Rightarrow> v)"

text \<open>
  Calling \<open>.get\<close> on a value that is not a dictionary raises \<open>AttributeError\<close>; the text of
  that exception names the type of the value.
\<close>

fun type_name :: "pyval \<Rightarrow> string" where
  "type_name PNone = ''NoneType''"
| "type_name (PBool b) = ''bool''"
| "type_name (PInt n) = ''int''"
| "type_name (PStr s) = ''str''"
| "type_name (PList xs) = ''list''"
| "type_name (PDict kvs) = ''dict''"

definition no_get_msg :: "pyval \<Rightarrow> string" where
  "no_get_msg v = [CHR 0x27] @ type_name v @ [CHR 0x27] @ '' object has no attribute ''
     @ [CHR 0x27] @ ''get'' @ [CHR 0x27]"

text \<open>\<open>x[:50]\<close> works on strings and lists and raises on every other value of the model.\<close>

fun sliceable :: "pyval \<Rightarrow> bool" where
  "sliceable (PStr s) = True"
| "sliceable (PList xs) = True"
| "sliceable v = False"

subsection \<open>\<open>str()\<close> and \<open>repr()\<close>\<close>

fun dec_nat :: "nat \<Rightarrow> string" where
  "dec_nat n = (if n < 10 then [char_of (48 + n)]
                else dec_nat (n div 10) @ [char_of (48 + n mod 10)])"

declare dec_nat.simps [simp del]

definition dec_int :: "int \<Rightarrow> string" where
  "dec_int i = (if i < 0 then CHR ''-'' # dec_nat (nat (- i)) else dec_nat (nat i))"

definition hex_digit :: "nat \<Rightarrow> char" where
  "hex_digit d = (if d < 10 then char_of (48 + d) else char_of (87 + d))"

definition printable :: "char \<Rightarrow> bool" where
  "printable c = (let n = (of_char c :: nat) in (32 \<le> n \<and> n < 127) \<or> (161 \<le> n \<and> n \<noteq> 173))"

definition repr_char :: "char \<Rightarrow> char \<Rightarrow> string" where
  "repr_char q c =
     (if c = q \<or> c = CHR 0x5C then [CHR 0x5C, c]
      else if c = CHR 0x09 then [CHR 0x5C, CHR ''t'']
      else if c = CHR 0x0A then [CHR 0x5C, CHR ''n'']
      else if c = CHR 0x0D then [CHR 0x5C, CHR ''r'']
      else if printable c then [c]
      else [CHR 0x5C, CHR ''x'', hex_digit ((of_char c :: nat) div 16),
            hex_digit ((of_char c :: nat) mod 16)])"

definition repr_str :: "string \<Rightarrow> string" where
  "repr_str s =
     (let q = (if CHR 0x27 \<in> set s \<and> CHR 0x22 \<notin> set s then CHR 0x22 else CHR 0x27)
      in [q] @ concat (map (repr_char q) s) @ [q])"

fun join_comma :: "string list \<Rightarrow> string" where
  "join_comma [] = []"
| "join_comma [x] = x"
| "join_comma (x # y # ys) = x @ '', '' @ join_comma (y # ys)"

fun py_repr :: "pyval \<Rightarrow> string" where
  "py_repr PNone = ''None''"
| "py_repr (PBool b) = (if b then ''True'' else ''False'')"
| "py_repr (PInt i) = dec_int i"
| "py_repr (PStr s) = repr_str s"
| "py_repr (PList xs) = ''['' @ join_comma (map py_repr xs) @ '']''"
| "py_repr (PDict kvs) =
     ''{'' @ join_comma (map (\<lambda>kv. repr_str (fst kv) @ '': '' @ py_repr (snd kv)) kvs) @ ''}''"

definition py_str :: "pyval \<Rightarrow> string" where
  "py_str v = (case v of PStr s \<Rightarrow> s | _ \<Rightarrow> py_repr v)"

subsection \<open>\<open>str.strip()\<close> and the phone-number pattern\<close>

definition py_isspace :: "char \<Rightarrow> bool" where
  "py_isspace c = ((of_char c :: nat) \<in> {9, 10, 11, 12, 13, 28, 29, 30, 31, 32, 133, 160})"

definition strip :: "string \<Rightarrow> string" where
  "strip s = rev (dropWhile py_isspace (rev (dropWhile py_isspace s)))"

definition is_digit :: "char \<Rightarrow> bool" where
  "is_digit c = (48 \<le> (of_char c :: nat) \<and> (of_char c :: nat) \<le> 57)"

text \<open>
  \<open>re.findall(r"\+?\d{7,15}", text)\<close>: the matches from left to right, without overlap.
  At a position the pattern takes a plus sign when there is one, then as many digits as
  there are, up to fifteen, and needs seven. When the digits after a plus sign are too
  few, giving the plus sign back does not help, since the position holds no digit.
\<close>

definition digit_run :: "string \<Rightarrow> string" where
  "digit_run s = take 15 (takeWhile is_digit s)"

definition match_phone :: "string \<Rightarrow> string option" where
  "match_phone s =
     (case s of
        [] \<Rightarrow> None
      | c # cs \<Rightarrow>
          if c = CHR ''+''
          then (let d = digit_run cs in if 7 \<le> length d then Some (c # d) else None)
          else (let d = digit_run s in if 7 \<le> length d then Some d else None))"

text \<open>
  The scan: \<open>scan_phone k s\<close> skips the \<open>k\<close> characters still covered by the last match,
  then tries the pattern at each position.
\<close>

fun scan_phone :: "nat \<Rightarrow> string \<Rightarrow> string list" where
  "scan_phone k [] = []"
| "scan_phone (Suc k) (c # cs) = scan_phone k cs"
| "scan_phone 0 (c # cs) =
     (case match_phone (c # cs) of
        Some m \<Rightarrow> m # scan_phone (length m - 1) cs
      | None \<Rightarrow> scan_phone 0 cs)"

definition findall_phone :: "string \<Rightarrow> string list" where
  "findall_phone s = scan_phone 0 s"

text \<open>
  The property the scan is compared with: the text contains a sequence of seven to
  fifteen digits, that is, some stretch of it of such a length consists of digits only.
\<close>

definition has_digit_seq :: "string \<Rightarrow> bool" where
  "has_digit_seq m =
     (\<exists>i \<in> {0..length m}. \<exists>n \<in> {7..15}. i + n \<le> length m \<and> list_all is_digit (take n (drop i m)))"

section \<open>The conversation record and the collaborators\<close>

type_synonym state = "string \<Rightarrow> pyval option"

text \<open>\<open>state.get(k)\<close> and \<open>state.get(k, default)\<close>.\<close>

definition sget :: "state \<Rightarrow> string \<Rightarrow> pyval" where
  "sget s k = (case s k of None \<Rightarrow> PNone | Some v \<Rightarrow> v)"

definition sget_d :: "state \<Rightarrow> string \<Rightarrow> pyval \<Rightarrow> pyval" where
  "sget_d s k d = (case s k of None \<Rightarrow> d | Some v \<Rightarrow> v)"

text \<open>
  \<open>AIMessage(content, additional_kwargs={"llm": tag})\<close>, kept as the dictionary of its two
  arguments.
\<close>

definition ai_message :: "pyval \<Rightarrow> string \<Rightarrow> pyval" where
  "ai_message content tag = PDict [(''content'', content), (''llm'', PStr tag)]"

text \<open>
  The oracle is the language model behind \<open>client.responses.create\<close>, followed by the JSON
  decoding of its text. Neither is code of the repository; a node receives their joint
  outcome. Either the call raises (with the text of the exception), or it returns a text,
  and the decoding of that text either fails (with the text of the decoder's exception) or
  gives a value. For the nodes that retry the decoding on the part of the text between the
  first opening and the last closing brace, \<open>Good\<close> is the value of whichever attempt
  succeeded and \<open>Bad\<close> means that both failed.
\<close>

datatype decoded = Bad string | Good pyval

datatype reply = CallFails string | Replies string decoded

subsection \<open>Dates and the campaign backend\<close>

text \<open>
  A \<open>datetime\<close>: the reading of its calendar and clock fields, counted in microseconds from
  0001-01-01 00:00:00, and the offset of its \<open>tzinfo\<close> from UTC in microseconds when it has
  one (only fixed offsets, as \<open>fromisoformat\<close> produces them). The readings a \<open>datetime\<close>
  can hold end with 9999-12-31 23:59:59.999999.
\<close>

record datetime =
  wall :: int
  tzoff :: "int option"

definition max_wall :: int where
  "max_wall = 3652059 * 86400 * 1000000 - 1"

text \<open>
  What the service takes from Python's \<open>datetime\<close> module: the two parsers (\<open>None\<close> where
  they raise) and the clock, \<open>datetime.now(timezone.utc)\<close> as a reading in UTC.
\<close>

record pylib =
  fromisoformat :: "string \<Rightarrow> datetime option"
  strptime :: "string \<Rightarrow> string \<Rightarrow> datetime option"
  now_utc :: int

record event_input =
  ei_name :: pyval
  ei_campaign_id :: pyval
  ei_event_date :: datetime
  ei_administrators :: pyval
  ei_context :: pyval
  ei_timezone :: pyval
  ei_image_url :: string

text \<open>
  The objects the backend answers with, reduced to the attribute the nodes read:
  \<open>Campaign.id\<close>, \<open>Event.id\<close>, \<open>MessageGroup.link\<close> (each \<open>Optional[str]\<close>; the field
  names carry a prefix, since the nodes use the plain names for local variables).
\<close>

record campaign =
  camp_id :: "string option"

record event =
  ev_id :: "string option"

record message_group =
  mg_link :: "string option"

text \<open>
  The campaign backend as the service object handed to the nodes sees it: the API client's
  calls. Each either raises (\<open>Inl\<close>, with the text of the exception; the client wraps every
  failure in \<open>ExternalAPIError\<close>) or returns an object or \<open>None\<close>. For \<open>create_campaign\<close>
  and \<open>create_event\<close> the call stands for building the pydantic input object and the HTTP
  request together.
\<close>

record backend =
  create_campaign :: "pyval \<Rightarrow> string + campaign option"
  create_event :: "event_input \<Rightarrow> string + event option"
  update_event_status :: "pyval \<Rightarrow> string \<Rightarrow> string + event option"
  get_group_by_id :: "pyval \<Rightarrow> string + message_group option"

text \<open>What a node did to the outside world, in order.\<close>

datatype call =
    OracleCall string
  | CreateCampaign pyval
  | CreateEvent event_input
  | ActivateEvent pyval
  | GetGroupStatus pyval

fun is_backend :: "call \<Rightarrow> bool" where
  "is_backend (OracleCall n) = False"
| "is_backend c = True"

text \<open>
  Whether an oracle reply decodes to an object whose \<open>processing_status\<close> is the string
  \<open>v\<close>.
\<close>

definition reply_carries_status :: "reply \<Rightarrow> string \<Rightarrow> bool" where
  "reply_carries_status orc v =
     (case orc of
        Replies content (Good (PDict res)) \<Rightarrow> map_of res ''processing_status'' = Some (PStr v)
      | _ \<Rightarrow> False)"

definition opt_str :: "string option \<Rightarrow> pyval" where
  "opt_str x = (case x of None \<Rightarrow> PNone | Some v \<Rightarrow> PStr v)"

text \<open>The three assignments every failure branch of the nodes makes.\<close>

definition set_error :: "string \<Rightarrow> state \<Rightarrow> state" where
  "set_error msg s = s(''bot_response'' \<mapsto> PStr msg,
                       ''current_step'' \<mapsto> PStr ''error'',
                       ''processing_status'' \<mapsto> PStr ''error'')"

section \<open>Router node (\<open>router_node.py\<close>)\<close>

definition msg_not_understood :: string where
  "msg_not_understood = ''Disculpa, no entend? completamente tu mensaje. ''
     @ ''Soy un asistente para crear campa?as y eventos; si quieres, podemos empezar una campa?a.''"

definition msg_out_of_context :: string where
  "msg_out_of_context = ''Disculpa, soy un asistente especializado en la creaci?n de campa?as con eventos y grupos de WhatsApp. ''
     @ ''?Te gustar?a crear una campa?a? Puedo ayudarte con eso.''"

definition msg_how_help :: string where
  "msg_how_help = ''?C?mo puedo ayudarte?''"

definition msg_missing_fields :: string where
  "msg_missing_fields = ''Faltan algunos datos. Te ayudo a completarlos.''"

definition msg_router_error :: string where
  "msg_router_error = ''Ocurri? un error. ?Puedes repetir tu mensaje?''"

text \<open>The dictionary that stands in for a reply that does not decode.\<close>

definition router_fallback :: "(string \<times> pyval) list" where
  "router_fallback =
     [(''next_step'', PStr ''out_of_context''),
      (''bot_response'', PStr msg_not_understood),
      (''processing_status'', PStr ''out_of_context''),
      (''is_campaign_related'', PBool False)]"

text \<open>
  One text field: the oracle's value when it gave one, else the whole message when the
  conversation is at that field's step. The source repeats this block for
  \<open>campaign_name\<close>, \<open>event_name\<close>, \<open>event_date\<close>, \<open>timezone\<close> and \<open>context\<close>.
\<close>

definition set_text_field ::
  "string \<Rightarrow> pyval \<Rightarrow> string \<Rightarrow> (string \<times> pyval) list \<Rightarrow> state \<Rightarrow> state" where
  "set_text_field k current_step user_message parsed s =
     (if truthy (dict_get parsed k) then s(k \<mapsto> PStr (strip (py_str (dict_get parsed k))))
      else if current_step = PStr k \<and> strip user_message \<noteq> [] then s(k \<mapsto> PStr (strip user_message))
      else s)"

definition set_admins ::
  "pyval \<Rightarrow> string \<Rightarrow> (string \<times> pyval) list \<Rightarrow> state \<Rightarrow> state" where
  "set_admins current_step user_message parsed s =
     (if truthy (dict_get parsed ''admins'') then
        (case dict_get parsed ''admins'' of
           PList xs \<Rightarrow> s(''admins'' \<mapsto> PList (map (\<lambda>a. PStr (strip (py_str a))) xs))
         | v \<Rightarrow> s(''admins'' \<mapsto> PList [PStr (strip (py_str v))]))
      else if current_step = PStr ''admins'' \<and> strip user_message \<noteq> [] then
        (let nums = findall_phone user_message in
         if nums \<noteq> [] then s(''admins'' \<mapsto> PList (map PStr nums))
         else s(''admins'' \<mapsto> PList [PStr (strip user_message)]))
      else s)"

definition required_data :: "state \<Rightarrow> pyval list" where
  "required_data s =
     [sget s ''campaign_name'', sget s ''event_name'', sget s ''event_date'',
      sget s ''timezone'', sget s ''admins'', sget s ''context'']"

definition set_confirmation :: "(string \<times> pyval) list \<Rightarrow> state \<Rightarrow> state" where
  "set_confirmation parsed s =
     (if dict_get parsed ''user_confirms'' \<noteq> PNone then
        (if truthy (dict_get parsed ''user_confirms'') then
           (if list_all truthy (required_data s)
            then s(''processing_status'' \<mapsto> PStr ''creating_campaign'')
            else s(''bot_response'' \<mapsto> PStr msg_missing_fields,
                   ''processing_status'' \<mapsto> PStr ''idle''))
         else s(''processing_status'' \<mapsto> PStr ''idle''))
      else s)"

definition set_event_id :: "(string \<times> pyval) list \<Rightarrow> state \<Rightarrow> state" where
  "set_event_id parsed s =
     (if truthy (dict_get parsed ''event_id'')
      then s(''event_id'' \<mapsto> PStr (strip (py_str (dict_get parsed ''event_id''))))
      else s)"

text \<open>
  The body of the \<open>try\<close> block after the reply has been decoded, in three layers. Each
  gives the record as it stands when the block is left, and whether it was left by an
  exception: the assignments made before an exception stay in the record.

  \<open>router_fields\<close> is the part that reads the extracted values (\<open>parsed\<close>), down to the
  log line that slices \<open>bot_response\<close>.
\<close>

definition router_fields ::
  "pyval \<Rightarrow> string \<Rightarrow> (string \<times> pyval) list \<Rightarrow> state \<Rightarrow> state \<times> bool" where
  "router_fields current_step user_message parsed s2 =
     (let s3 = set_text_field ''campaign_name'' current_step user_message parsed s2;
          s4 = set_text_field ''event_name'' current_step user_message parsed s3;
          s5 = set_text_field ''event_date'' current_step user_message parsed s4;
          s6 = set_text_field ''timezone'' current_step user_message parsed s5;
          s7 = set_admins current_step user_message parsed s6;
          s8 = set_text_field ''context'' current_step user_message parsed s7;
          s9 = set_confirmation parsed s8;
          s10 = set_event_id parsed s9
      in (s10, \<not> sliceable (sget s10 ''bot_response'')))"

text \<open>\<open>llm_res.get("parsed", {}) or {}\<close>.\<close>

definition parsed_of :: "(string \<times> pyval) list \<Rightarrow> pyval" where
  "parsed_of res =
     (let p = dict_get_d res ''parsed'' (PDict []) in if truthy p then p else PDict [])"

text \<open>
  The branch for a message the oracle calls campaign-related. First the node adopts the
  oracle's step and response, and its \<open>processing_status\<close> only when that is one of two
  values; then it turns to the extracted values.
\<close>

definition router_adopt :: "pyval \<Rightarrow> (string \<times> pyval) list \<Rightarrow> state \<Rightarrow> state" where
  "router_adopt current_step res s =
     (let s1 = s(''current_step'' \<mapsto> dict_get_d res ''next_step'' current_step,
                 ''bot_response'' \<mapsto> dict_get_d res ''bot_response'' (PStr msg_how_help));
          llm_processing_status = dict_get_d res ''processing_status'' (PStr ''idle'')
      in if llm_processing_status \<in> {PStr ''checking_status'', PStr ''out_of_context''}
         then s1(''processing_status'' \<mapsto> llm_processing_status) else s1)"

definition router_in_domain ::
  "pyval \<Rightarrow> string \<Rightarrow> (string \<times> pyval) list \<Rightarrow> state \<Rightarrow> state \<times> bool" where
  "router_in_domain current_step user_message res s =
     (case parsed_of res of
        PDict parsed \<Rightarrow> router_fields current_step user_message parsed (router_adopt current_step res s)
      | _ \<Rightarrow> (router_adopt current_step res s, True))"

definition router_apply :: "pyval \<Rightarrow> string \<Rightarrow> pyval \<Rightarrow> state \<Rightarrow> state \<times> bool" where
  "router_apply current_step user_message llm_res s =
     (case llm_res of
        PDict res \<Rightarrow>
          if \<not> truthy (dict_get_d res ''is_campaign_related'' (PBool True)) then
            (s(''current_step'' \<mapsto> PStr ''out_of_context'',
               ''bot_response'' \<mapsto> dict_get_d res ''bot_response'' (PStr msg_out_of_context),
               ''processing_status'' \<mapsto> PStr ''out_of_context''), False)
          else router_in_domain current_step user_message res s
      | _ \<Rightarrow> (s, True))"

definition router_try :: "reply \<Rightarrow> pyval \<Rightarrow> string \<Rightarrow> state \<Rightarrow> state \<times> bool" where
  "router_try orc current_step user_message s =
     (case orc of
        CallFails e \<Rightarrow> (s, True)
      | Replies content d \<Rightarrow>
          router_apply current_step user_message
            (case d of Good v \<Rightarrow> v | Bad e \<Rightarrow> PDict router_fallback)
            (s(''messages'' \<mapsto> ai_message (PStr content) ''router'')))"

text \<open>
  \<open>router_node\<close>. The record declares \<open>user_message\<close> as a string and the entry point
  always stores one. The node slices it for its log line before the \<open>try\<close> block, which
  raises for \<open>None\<close>, numbers and dictionaries; values that are no strings are outside the
  model, which answers \<open>Inl\<close> for all of them instead of returning a record.
\<close>

definition router_node :: "reply \<Rightarrow> state \<Rightarrow> string + state \<times> call list" where
  "router_node orc s =
     (case sget_d s ''user_message'' (PStr []) of
        PStr user_message \<Rightarrow>
          (let current_step = sget_d s ''current_step'' (PStr ''greeting'');
               (s', raised) = router_try orc current_step user_message s
           in Inr (if raised then s'(''bot_response'' \<mapsto> PStr msg_router_error) else s',
                   [OracleCall ''router'']))
      | _ \<Rightarrow> Inl ''TypeError'')"

section \<open>Decision functions (\<open>graph/decisions.py\<close>)\<close>

definition router_decision :: "state \<Rightarrow> string" where
  "router_decision s =
     (let current_step = sget_d s ''current_step'' (PStr ''greeting'');
          processing_status = sget_d s ''processing_status'' (PStr ''idle'')
      in if current_step = PStr ''out_of_context'' \<or> processing_status = PStr ''out_of_context''
         then ''__end__''
         else if current_step = PStr ''check_status'' then ''check_status''
         else if processing_status = PStr ''creating_campaign'' then ''create_campaign''
         else if current_step = PStr ''create_campaign'' \<and> processing_status = PStr ''idle''
         then ''create_campaign''
         else if current_step = PStr ''pending_group'' then ''pending_group''
         else if current_step = PStr ''completed'' then ''completed''
         else if current_step = PStr ''error'' then ''error''
         else if current_step \<in> PStr ` {''greeting'', ''campaign_name'', ''event_name'',
                   ''event_date'', ''timezone'', ''admins'', ''context'', ''confirmation''}
         then ''__end__''
         else ''__end__'')"

definition event_creator_decision :: "state \<Rightarrow> string" where
  "event_creator_decision s =
     (let current_step = sget_d s ''current_step'' (PStr ''error'');
          processing_status = sget_d s ''processing_status'' (PStr ''error'')
      in if current_step = PStr ''create_whatsapp_group'' \<and> processing_status = PStr ''creating_group''
         then ''create_whatsapp_group''
         else if current_step = PStr ''error'' \<or> processing_status = PStr ''error'' then ''error''
         else ''error'')"

definition whatsapp_decision :: "state \<Rightarrow> string" where
  "whatsapp_decision s =
     (let processing_status = sget_d s ''processing_status'' (PStr ''idle'')
      in if processing_status = PStr ''completed'' \<or> processing_status = PStr ''creating''
         then ''completed'' else ''error'')"

definition status_decision :: "state \<Rightarrow> string" where
  "status_decision s =
     (let processing_status = sget_d s ''processing_status'' (PStr ''idle'')
      in if processing_status = PStr ''completed'' then ''completed''
         else if processing_status = PStr ''error'' then ''error''
         else ''wait'')"

definition completion_decision :: "state \<Rightarrow> string" where
  "completion_decision s = ''end''"

section \<open>Campaign service (\<open>campaign_service.py\<close>)\<close>

datatype exn = InvalidEventDate string string | OtherException string

text \<open>
  The date argument of \<open>create_event_for_campaign\<close>: a \<open>datetime\<close> object, as the signature
  says, or any value of the record, as the EventCreator node passes it.
\<close>

datatype date_arg = DateObj datetime | DateVal pyval

definition event_date_formats :: "string list" where
  "event_date_formats = [''%Y-%m-%d %H:%M'', ''%Y-%m-%d'', ''%d/%m/%Y %H:%M'', ''%d/%m/%Y'']"

fun try_formats :: "pylib \<Rightarrow> string \<Rightarrow> string list \<Rightarrow> datetime option" where
  "try_formats lib str [] = None"
| "try_formats lib str (fmt # fmts) =
     (case strptime lib str fmt of Some d \<Rightarrow> Some d | None \<Rightarrow> try_formats lib str fmts)"

definition parse_event_date :: "pylib \<Rightarrow> string \<Rightarrow> datetime option" where
  "parse_event_date lib str =
     (case fromisoformat lib str of
        Some d \<Rightarrow> Some d
      | None \<Rightarrow> try_formats lib str event_date_formats)"

text \<open>
  \<open>replace(tzinfo=timezone.utc)\<close> on a naive value, \<open>astimezone(timezone.utc)\<close> on an aware
  one; the latter subtracts the offset and raises \<open>OverflowError\<close> when the result leaves
  the range of \<open>datetime\<close>.
\<close>

definition to_utc :: "datetime \<Rightarrow> exn + datetime" where
  "to_utc d =
     (case tzoff d of
        None \<Rightarrow> Inr (d\<lparr>tzoff := Some 0\<rparr>)
      | Some off \<Rightarrow>
          (let w = wall d - off
           in if 0 \<le> w \<and> w \<le> max_wall then Inr \<lparr>wall = w, tzoff = Some 0\<rparr>
              else Inl (OtherException ''date value out of range'')))"

definition msg_future_date :: string where
  "msg_future_date = ''? La fecha del evento debe ser futura. Por favor, elige una fecha y hora que a?n no haya pasado.''"

definition default_image_url :: string where
  "default_image_url = ''data:image/png;base64,iVBORw0KGgoAAAANSUhEUgAAAAEAAAABCAYAAAAfFcSJAAAADUlEQVR42mNkYPhfDwAChwGA60e6kgAAAABJRU5ErkJggg==''"

definition no_tzinfo_msg :: "pyval \<Rightarrow> string" where
  "no_tzinfo_msg v = [CHR 0x27] @ type_name v @ [CHR 0x27] @ '' object has no attribute ''
     @ [CHR 0x27] @ ''tzinfo'' @ [CHR 0x27]"

text \<open>The first half of the function: from the argument to a \<open>datetime\<close> in UTC.\<close>

definition resolve_event_date :: "pylib \<Rightarrow> date_arg \<Rightarrow> exn + datetime" where
  "resolve_event_date lib event_date =
     (case event_date of
        DateVal (PStr str) \<Rightarrow>
          (case parse_event_date lib str of
             None \<Rightarrow> Inl (InvalidEventDate (''Invalid event_date format: '' @ str)
                                          (''Invalid event_date format: '' @ str))
           | Some d \<Rightarrow> to_utc d)
      | DateVal v \<Rightarrow> Inl (OtherException (no_tzinfo_msg v))
      | DateObj d \<Rightarrow> to_utc d)"

definition create_event_for_campaign ::
  "pylib \<Rightarrow> backend \<Rightarrow> pyval \<Rightarrow> pyval \<Rightarrow> date_arg \<Rightarrow> pyval \<Rightarrow> pyval \<Rightarrow> pyval
     \<Rightarrow> (exn + event option) \<times> call list" where
  "create_event_for_campaign lib be campaign_id name event_date administrators context tz_name =
     (case resolve_event_date lib event_date of
        Inl e \<Rightarrow> (Inl e, [])
      | Inr d \<Rightarrow>
          if wall d \<le> now_utc lib
          then (Inl (InvalidEventDate ''Event date must be in the future'' msg_future_date), [])
          else
            (let event_input = \<lparr>ei_name = name, ei_campaign_id = campaign_id, ei_event_date = d,
                                 ei_administrators = administrators, ei_context = context,
                                 ei_timezone = tz_name, ei_image_url = default_image_url\<rparr>
             in (case create_event be event_input of
                   Inl e \<Rightarrow> Inl (OtherException e)
                 | Inr r \<Rightarrow> Inr r,
                 [CreateEvent event_input])))"

definition activate_event :: "backend \<Rightarrow> pyval \<Rightarrow> (string + event option) \<times> call list" where
  "activate_event be event_id = (update_event_status be event_id ''scheduled'', [ActivateEvent event_id])"

definition get_group_status :: "backend \<Rightarrow> pyval \<Rightarrow> (string + message_group option) \<times> call list" where
  "get_group_status be group_id = (get_group_by_id be group_id, [GetGroupStatus group_id])"

definition create_campaign_with_defaults :: "backend \<Rightarrow> pyval \<Rightarrow> (string + campaign option) \<times> call list" where
  "create_campaign_with_defaults be name = (create_campaign be name, [CreateCampaign name])"

section \<open>CampaignCreator node (\<open>campaign_creator_node.py\<close>)\<close>

definition campaign_creator_node :: "reply \<Rightarrow> backend \<Rightarrow> state \<Rightarrow> state \<times> call list" where
  "campaign_creator_node orc be s =
     (let campaign_name = sget s ''campaign_name'' in
      case orc of
        CallFails e \<Rightarrow> (set_error (''? Error t?cnico: '' @ e) s, [OracleCall ''campaign_creator''])
      | Replies content (Bad e) \<Rightarrow>
          (set_error (''? Error t?cnico: '' @ e) s, [OracleCall ''campaign_creator''])
      | Replies content (Good llm_response) \<Rightarrow>
          (let s1 = s(''messages'' \<mapsto> ai_message (PStr content) ''campaign_creator'') in
           case llm_response of
             PDict res \<Rightarrow>
               if truthy (dict_get_d res ''should_create'' (PBool True)) then
                 (case create_campaign_with_defaults be campaign_name of
                    (Inl e, calls) \<Rightarrow>
                      (set_error (''? Error t?cnico: '' @ e) s1, OracleCall ''campaign_creator'' # calls)
                  | (Inr (Some result), calls) \<Rightarrow>
                      (s1(''campaign_id'' \<mapsto> opt_str (camp_id result),
                          ''bot_response'' \<mapsto> PStr (''? Campa?a '' @ [CHR 0x27] @ py_str campaign_name
                                                     @ [CHR 0x27] @ '' creada. Creando evento...''),
                          ''current_step'' \<mapsto> PStr ''create_event'',
                          ''processing_status'' \<mapsto> PStr ''creating_event''),
                       OracleCall ''campaign_creator'' # calls)
                  | (Inr None, calls) \<Rightarrow>
                      (set_error ''? Error al crear la campa?a. ?Intentamos de nuevo?'' s1,
                       OracleCall ''campaign_creator'' # calls))
               else
                 (s1(''bot_response'' \<mapsto> dict_get_d res ''bot_response'' (PStr ''Error en validaci?n''),
                     ''current_step'' \<mapsto> dict_get_d res ''next_step'' (PStr ''error''),
                     ''processing_status'' \<mapsto> dict_get_d res ''processing_status'' (PStr ''error'')),
                  [OracleCall ''campaign_creator''])
           | v \<Rightarrow> (set_error (''? Error t?cnico: '' @ no_get_msg v) s1, [OracleCall ''campaign_creator''])))"

section \<open>EventCreator node (\<open>event_creator_node.py\<close>)\<close>

definition event_creator_fallback :: "(string \<times> pyval) list" where
  "event_creator_fallback =
     [(''should_create'', PBool False),
      (''bot_response'', PStr ''No entend? la validaci?n. Puedes repetir?''),
      (''next_step'', PStr ''error''),
      (''processing_status'', PStr ''error''),
      (''timezone'', PNone)]"

definition msg_event_failed :: string where
  "msg_event_failed = ''? No pude crear el evento. Por favor revisa los datos y vuelve a intentarlo.''"

definition event_creator_node :: "reply \<Rightarrow> pylib \<Rightarrow> backend \<Rightarrow> state \<Rightarrow> state \<times> call list" where
  "event_creator_node orc lib be s =
     (let event_name = sget s ''event_name'' in
      case orc of
        CallFails e \<Rightarrow> (set_error (''? Error t?cnico: '' @ e) s, [OracleCall ''event_creator''])
      | Replies content d \<Rightarrow>
          (let s1 = s(''messages'' \<mapsto> ai_message (PStr content) ''event_creator'') in
           case (case d of Good v \<Rightarrow> v | Bad e \<Rightarrow> PDict event_creator_fallback) of
             PDict res \<Rightarrow>
               if truthy (dict_get_d res ''should_create'' (PBool True)) then
                 (let timezone = (if truthy (dict_get res ''timezone'') then dict_get res ''timezone''
                                  else PStr ''America/Bogota'');
                      event_date_value = sget s1 ''event_date''
                  in case create_event_for_campaign lib be (sget s1 ''campaign_id'') event_name
                            (DateVal event_date_value) (sget s1 ''admins'') (sget s1 ''context'') timezone of
                       (Inl (InvalidEventDate m bot_message), calls) \<Rightarrow>
                         (set_error bot_message s1, OracleCall ''event_creator'' # calls)
                     | (Inl (OtherException m), calls) \<Rightarrow>
                         (set_error msg_event_failed s1, OracleCall ''event_creator'' # calls)
                     | (Inr (Some result), calls) \<Rightarrow>
                         (s1(''event_id'' \<mapsto> opt_str (ev_id result),
                             ''bot_response'' \<mapsto> PStr (''? Evento '' @ [CHR 0x27] @ py_str event_name
                                                        @ [CHR 0x27] @ '' creado. Creando grupo WhatsApp...''),
                             ''current_step'' \<mapsto> PStr ''create_whatsapp_group'',
                             ''processing_status'' \<mapsto> PStr ''creating_group''),
                          OracleCall ''event_creator'' # calls)
                     | (Inr None, calls) \<Rightarrow>
                         (set_error ''? Error al crear el evento.'' s1, OracleCall ''event_creator'' # calls))
               else
                 (s1(''bot_response'' \<mapsto> dict_get_d res ''bot_response'' (PStr ''Error en validaci?n''),
                     ''current_step'' \<mapsto> dict_get_d res ''next_step'' (PStr ''error''),
                     ''processing_status'' \<mapsto> dict_get_d res ''processing_status'' (PStr ''error'')),
                  [OracleCall ''event_creator''])
           | v \<Rightarrow> (set_error (''? Error t?cnico: '' @ no_get_msg v) s1, [OracleCall ''event_creator''])))"

section \<open>GroupActivator node (\<open>whatsapp_group_creator_node.py\<close>)\<close>

definition msg_no_valid_event :: string where
  "msg_no_valid_event = ''? No se puede crear el grupo porque no existe un evento v?lido.''"

definition msg_event_activated :: string where
  "msg_event_activated = ''? Evento activado correctamente. ''
     @ ''El grupo de WhatsApp se est? generando en segundo plano. ''
     @ ''En unos momentos estar? listo y podr?s consultar el enlace.''"

definition whatsapp_fallback :: "(string \<times> pyval) list" where
  "whatsapp_fallback =
     [(''should_activate'', PBool True),
      (''bot_response'', PStr ''Activando evento para generar grupo.''),
      (''next_step'', PStr ''pending_group''),
      (''processing_status'', PStr ''completed'')]"

definition whatsapp_group_creator_node :: "reply \<Rightarrow> backend \<Rightarrow> state \<Rightarrow> state \<times> call list" where
  "whatsapp_group_creator_node orc be s =
     (let event_id = sget s ''event_id'' in
      if sget s ''processing_status'' \<noteq> PStr ''creating_group'' \<or> \<not> truthy event_id
      then (set_error msg_no_valid_event s, [])
      else
        case orc of
          CallFails e \<Rightarrow>
            (set_error (''? Error creando grupo: '' @ e) s, [OracleCall ''whatsapp_group_creator''])
        | Replies content d \<Rightarrow>
            (let s1 = s(''messages'' \<mapsto> ai_message (PStr content) ''whatsapp_group_creator'') in
             case (case d of Good v \<Rightarrow> v | Bad e \<Rightarrow> PDict whatsapp_fallback) of
               PDict res \<Rightarrow>
                 if truthy (dict_get_d res ''should_activate'' (PBool True)) \<and> truthy event_id then
                   (case activate_event be event_id of
                      (Inl e, calls) \<Rightarrow>
                        (set_error (''? Error creando grupo: '' @ e) s1,
                         OracleCall ''whatsapp_group_creator'' # calls)
                    | (Inr response, calls) \<Rightarrow>
                        (s1(''pending_event_id'' \<mapsto> event_id,
                            ''bot_response'' \<mapsto> dict_get_d res ''bot_response'' (PStr msg_event_activated),
                            ''current_step'' \<mapsto> dict_get_d res ''next_step'' (PStr ''pending_group''),
                            ''processing_status'' \<mapsto> dict_get_d res ''processing_status'' (PStr ''completed'')),
                         OracleCall ''whatsapp_group_creator'' # calls))
                 else
                   (s1(''bot_response'' \<mapsto> dict_get_d res ''bot_response'' (PStr ''Error en creaci?n de grupo''),
                       ''current_step'' \<mapsto> dict_get_d res ''next_step'' (PStr ''error''),
                       ''processing_status'' \<mapsto> dict_get_d res ''processing_status'' (PStr ''error'')),
                    [OracleCall ''whatsapp_group_creator''])
             | v \<Rightarrow> (set_error (''? Error creando grupo: '' @ no_get_msg v) s1,
                     [OracleCall ''whatsapp_group_creator''])))"

section \<open>StatusChecker node (\<open>group_status_checker_node.py\<close>)\<close>

definition parse_llm_response :: "decoded \<Rightarrow> pyval \<Rightarrow> pyval" where
  "parse_llm_response d fallback_response = (case d of Good v \<Rightarrow> v | Bad e \<Rightarrow> fallback_response)"

definition should_check_status :: "reply \<Rightarrow> pyval" where
  "should_check_status orc =
     (case orc of
        Replies content d \<Rightarrow>
          parse_llm_response d
            (PDict [(''should_check'', PBool True),
                    (''bot_response'', PStr ''Verificar? el estado del grupo.''),
                    (''next_step'', PStr ''wait''),
                    (''processing_status'', PStr ''pending'')])
      | CallFails e \<Rightarrow>
          PDict [(''should_check'', PBool False),
                 (''bot_response'', PStr ''No puedo verificar el estado en este momento. Intenta m?s tarde.''),
                 (''next_step'', PStr ''error''),
                 (''processing_status'', PStr ''error'')])"

text \<open>
  \<open>_get_group_status\<close>: the triple (status_result, group_link, error_message), with the
  backend calls made.
\<close>

definition node_get_group_status ::
  "backend \<Rightarrow> pyval \<Rightarrow> (string \<times> string \<times> string) \<times> call list" where
  "node_get_group_status be event_id =
     (case get_group_status be event_id of
        (Inr (Some group_status), calls) \<Rightarrow>
          (case mg_link group_status of
             Some l \<Rightarrow> if l \<noteq> [] then ((''ready'', l, []), calls)
                       else ((''pending'', ''No disponible'', []), calls)
           | None \<Rightarrow> ((''pending'', ''No disponible'', []), calls))
      | (Inr None, calls) \<Rightarrow> ((''not_found'', ''No disponible'', []), calls)
      | (Inl e, calls) \<Rightarrow> ((''error'', ''No disponible'', ''Error interno''), calls))"

definition fallback_responses :: "string \<Rightarrow> string \<Rightarrow> pyval" where
  "fallback_responses status_result group_link =
     (if status_result = ''ready'' then
        PDict [(''bot_response'', PStr (''?Perfecto! ? Tu grupo est? listo: '' @ group_link)),
               (''current_step'', PStr ''completed''),
               (''processing_status'', PStr ''completed'')]
      else if status_result = ''pending'' then
        PDict [(''bot_response'', PStr ''? Tu grupo se est? generando. Consulta en unos momentos.''),
               (''current_step'', PStr ''wait''),
               (''processing_status'', PStr ''pending'')]
      else if status_result = ''not_found'' then
        PDict [(''bot_response'', PStr ''No encontr? un grupo para ese evento. ?Podr?as verificar el ID?''),
               (''current_step'', PStr ''error''),
               (''processing_status'', PStr ''error'')]
      else
        PDict [(''bot_response'', PStr ''Hubo un problema consultando el estado. Intenta de nuevo en unos momentos.''),
               (''current_step'', PStr ''error''),
               (''processing_status'', PStr ''error'')])"

definition generate_status_response :: "reply \<Rightarrow> string \<Rightarrow> string \<Rightarrow> pyval" where
  "generate_status_response orc status_result group_link =
     (case orc of
        Replies content d \<Rightarrow> parse_llm_response d (fallback_responses status_result group_link)
      | CallFails e \<Rightarrow>
          PDict [(''bot_response'', PStr ''No puedo generar una respuesta en este momento.''),
                 (''current_step'', PStr ''error''),
                 (''processing_status'', PStr ''error'')])"

definition msg_status_failed :: string where
  "msg_status_failed = ''No puedo consultar el estado en este momento. Intenta m?s tarde.''"

text \<open>The \<open>except\<close> block of the node.\<close>

definition status_failed :: "state \<Rightarrow> state" where
  "status_failed s =
     (set_error msg_status_failed s)
       (''messages'' \<mapsto> ai_message (PStr msg_status_failed) ''group_status_checker'')"

text \<open>
  The last statement of the \<open>try\<close> block builds an \<open>AIMessage\<close> from the record's
  \<open>bot_response\<close>, which at that point is whatever the oracle sent. The constructor takes
  any string as content and refuses \<open>None\<close>; which other values it accepts (lists of
  strings and dictionaries, numbers under a coercing validator) depends on the version of
  the message library: \<open>msg_ok\<close>. A value it refuses raises, and the \<open>except\<close> block takes
  over.
\<close>

definition accepts_content :: "(pyval \<Rightarrow> bool) \<Rightarrow> pyval \<Rightarrow> bool" where
  "accepts_content msg_ok v = (case v of PStr t \<Rightarrow> True | PNone \<Rightarrow> False | _ \<Rightarrow> msg_ok v)"

definition status_finish :: "(pyval \<Rightarrow> bool) \<Rightarrow> state \<Rightarrow> state" where
  "status_finish msg_ok s =
     (if accepts_content msg_ok (sget s ''bot_response'')
      then s(''messages'' \<mapsto> ai_message (sget s ''bot_response'') ''group_status_checker'')
      else status_failed s)"

text \<open>
  The node consults the oracle twice: \<open>orc1\<close> answers whether to check at all, \<open>orc2\<close>
  phrases the outcome.
\<close>

definition group_status_checker_node ::
  "reply \<Rightarrow> reply \<Rightarrow> (pyval \<Rightarrow> bool) \<Rightarrow> backend \<Rightarrow> state \<Rightarrow> state \<times> call list" where
  "group_status_checker_node orc1 orc2 msg_ok be s =
     (let event_id = (if truthy (sget s ''event_id'') then sget s ''event_id''
                      else sget s ''pending_event_id'')
      in case should_check_status orc1 of
           PDict decision \<Rightarrow>
             if truthy (dict_get_d decision ''should_check'' (PBool True)) \<and> truthy event_id then
               (case node_get_group_status be event_id of
                  ((status_result, group_link, error_message), calls) \<Rightarrow>
                    (let s1 = (if status_result = ''ready''
                               then s(''whatsapp_group_url'' \<mapsto> PStr group_link,
                                      ''came_from_status_check'' \<mapsto> PBool True)
                               else s);
                         log = OracleCall ''status_decision'' # calls @ [OracleCall ''status_response'']
                     in case generate_status_response orc2 status_result group_link of
                          PDict response_data \<Rightarrow>
                            (status_finish msg_ok
                               (s1(''bot_response'' \<mapsto> dict_get_d response_data ''bot_response'' (PStr ''Estado consultado.''),
                                   ''current_step'' \<mapsto> dict_get_d response_data ''current_step'' (PStr ''wait''),
                                   ''processing_status'' \<mapsto> dict_get_d response_data ''processing_status'' (PStr ''pending''))),
                             log)
                        | v \<Rightarrow> (status_failed s1, log)))
             else
               (status_finish msg_ok
                  (s(''bot_response'' \<mapsto> dict_get_d decision ''bot_response''
                        (PStr ''Para consultar el estado, necesito el ID del evento. ?Podr?as proporcion?rmelo?''),
                     ''current_step'' \<mapsto> dict_get_d decision ''next_step'' (PStr ''wait''),
                     ''processing_status'' \<mapsto> dict_get_d decision ''processing_status'' (PStr ''pending''))),
                [OracleCall ''status_decision''])
         | v \<Rightarrow> (status_failed s, [OracleCall ''status_decision'']))"

section \<open>Completion node (\<open>completion_node.py\<close>)\<close>

definition completion_fallback :: "(string \<times> pyval) list" where
  "completion_fallback =
     [(''action'', PStr ''general_response''),
      (''bot_response'', PStr ''?Proceso completado! ?Te gustar?a crear una nueva campa?a?''),
      (''reset_state'', PBool False)]"

text \<open>The dictionary literal of the reset, key by key as the source writes it.\<close>

definition new_state_items :: "(string \<times> pyval) list" where
  "new_state_items =
     [(''messages'', PList []),
      (''campaign_name'', PNone),
      (''event_name'', PNone),
      (''event_date'', PNone),
      (''admins'', PNone),
      (''context'', PNone),
      (''current_step'', PStr ''campaign_name''),
      (''user_message'', PStr []),
      (''bot_response'', PStr ''?Nueva campa?a! ?Cu?l ser? el nombre?''),
      (''campaign_id'', PNone),
      (''event_id'', PNone),
      (''whatsapp_group_url'', PNone),
      (''processing_status'', PStr ''idle'')]"

definition new_state :: state where
  "new_state = map_of new_state_items"

definition summary_text :: "state \<Rightarrow> string" where
  "summary_text s =
     [CHR 0x0A] @ ''? ?Campa?a completada!'' @ [CHR 0x0A, CHR 0x0A]
     @ ''? Detalles:'' @ [CHR 0x0A]
     @ ''? Campa?a: '' @ py_str (sget s ''campaign_name'') @ '' ('' @ py_str (sget s ''campaign_id'') @ '')'' @ [CHR 0x0A]
     @ ''? Evento: '' @ py_str (sget s ''event_name'') @ '' ('' @ py_str (sget s ''event_id'') @ '')'' @ [CHR 0x0A]
     @ ''? Fecha: '' @ py_str (sget s ''event_date'') @ [CHR 0x0A]
     @ ''? Grupo: '' @ py_str (if truthy (sget s ''whatsapp_group_url'') then sget s ''whatsapp_group_url''
                              else PStr ''En proceso...'') @ [CHR 0x0A, CHR 0x0A]
     @ ''?Crear otra campa?a? Escribe '' @ [CHR 0x27] @ ''nueva'' @ [CHR 0x27] @ '' o ''
     @ [CHR 0x27] @ ''hola'' @ [CHR 0x27] @ ''.'' @ [CHR 0x0A]"

definition msg_completed :: string where
  "msg_completed = ''?Campa?a completada! ?Crear otra? Escribe '' @ [CHR 0x27] @ ''nueva'' @ [CHR 0x27] @ ''.''"

definition completion_node :: "reply \<Rightarrow> state \<Rightarrow> state \<times> call list" where
  "completion_node orc s =
     (case orc of
        CallFails e \<Rightarrow> (s(''bot_response'' \<mapsto> PStr msg_completed), [OracleCall ''completion''])
      | Replies content d \<Rightarrow>
          (let s1 = s(''messages'' \<mapsto> ai_message (PStr content) ''completion'') in
           case (case d of Good v \<Rightarrow> v | Bad e \<Rightarrow> PDict completion_fallback) of
             PDict llm_response \<Rightarrow>
               if dict_get llm_response ''action'' = PStr ''new_campaign''
                  \<or> truthy (dict_get llm_response ''reset_state'')
               then (new_state, [OracleCall ''completion''])
               else (s1(''bot_response'' \<mapsto> dict_get_d llm_response ''bot_response'' (PStr (summary_text s1))),
                     [OracleCall ''completion''])
           | v \<Rightarrow> (s1(''bot_response'' \<mapsto> PStr msg_completed), [OracleCall ''completion''])))"

section \<open>The graph (\<open>graph/builder.py\<close>) and the entry point (\<open>campaign_graph.py\<close>)\<close>

datatype node =
    Router
  | CampaignCreator
  | EventCreator
  | WhatsappGroupCreator
  | GroupStatusChecker
  | Completion

text \<open>
  The edges of \<open>build_campaign_graph\<close>: the node that runs after \<open>n\<close> has returned the
  record \<open>s\<close>, or \<open>None\<close> for \<open>END\<close>. A conditional edge looks the decision function's
  answer up in its table (every answer of the decision functions is a key of its table).
\<close>

definition edge :: "(string \<times> node option) list \<Rightarrow> string \<Rightarrow> node option" where
  "edge table answer = (case map_of table answer of Some target \<Rightarrow> target | None \<Rightarrow> None)"

definition graph_next :: "node \<Rightarrow> state \<Rightarrow> node option" where
  "graph_next n s =
     (case n of
        Router \<Rightarrow>
          edge [(''create_campaign'', Some CampaignCreator),
                (''check_status'', Some GroupStatusChecker),
                (''pending_group'', None),
                (''completed'', Some Completion),
                (''__end__'', None),
                (''error'', None)] (router_decision s)
      | CampaignCreator \<Rightarrow> Some EventCreator
      | EventCreator \<Rightarrow>
          edge [(''create_whatsapp_group'', Some WhatsappGroupCreator),
                (''error'', None)] (event_creator_decision s)
      | WhatsappGroupCreator \<Rightarrow>
          edge [(''completed'', None), (''error'', None)] (whatsapp_decision s)
      | GroupStatusChecker \<Rightarrow>
          edge [(''completed'', None), (''wait'', None), (''error'', None)] (status_decision s)
      | Completion \<Rightarrow> edge [(''end'', None)] (completion_decision s))"

text \<open>
  How the engine takes a node's returned dictionary over the record it keeps for the
  session: key by key, so a key the dictionary lacks keeps its value. The entry point
  relies on the same rule: each turn it hands the engine \<open>messages\<close> and \<open>user_message\<close>
  only, and the rest of the record comes from the checkpoint. The record declares
  \<open>messages\<close> with the \<open>add_messages\<close> reducer: what is returned under that key, a message
  or a list of messages, is appended to the list the record holds (the messages built
  here carry no identifier, so none replaces an earlier one).
\<close>

definition add_messages :: "pyval option \<Rightarrow> pyval \<Rightarrow> pyval" where
  "add_messages left right =
     PList ((case left of None \<Rightarrow> [] | Some (PList xs) \<Rightarrow> xs | Some v \<Rightarrow> [v])
            @ (case right of PList ys \<Rightarrow> ys | v \<Rightarrow> [v]))"

definition apply_update :: "state \<Rightarrow> state \<Rightarrow> state" where
  "apply_update record upd =
     (\<lambda>k. if k = ''messages''
          then (case upd k of None \<Rightarrow> record k | Some v \<Rightarrow> Some (add_messages (record k) v))
          else (record ++ upd) k)"

text \<open>
  The dictionary \<open>process_message\<close> hands the engine at each turn; the engine takes it
  over the checkpointed record by the rule above before the Router runs.
\<close>

definition turn_input :: "string \<Rightarrow> state" where
  "turn_input user_message =
     [''messages'' \<mapsto> PList [PDict [(''role'', PStr ''user''), (''content'', PStr user_message)]],
      ''user_message'' \<mapsto> PStr user_message]"

text \<open>
  What \<open>await self.graph.ainvoke(...)\<close> can do inside \<open>process_message\<close>: return the final
  record, or raise. A raised exception is either an instance of \<open>Exception\<close> or derives
  from \<open>BaseException\<close> only, as \<open>asyncio.CancelledError\<close> (raised at the \<open>await\<close> when the
  task is cancelled), \<open>KeyboardInterrupt\<close> and \<open>SystemExit\<close> do; each carries its text.
\<close>

datatype raised = ExceptionInstance string | BaseExceptionOnly string

datatype ainvoke_outcome = GraphReturns state | GraphRaises raised

text \<open>
  \<open>process_message\<close>. It builds the dictionary of the turn, awaits the engine on it under
  the thread of \<open>user_id\<close> and returns what the engine returns; its \<open>session_state\<close>
  parameter is never read. \<open>Inr\<close> is the dictionary it returns, \<open>Inl\<close> the exception that
  reaches its caller. The \<open>except Exception\<close> clause catches the instances of \<open>Exception\<close>
  and nothing else.
\<close>

definition process_message :: "(state \<Rightarrow> string \<Rightarrow> ainvoke_outcome) \<Rightarrow> string \<Rightarrow> string \<Rightarrow> raised + state" where
  "process_message ainvoke user_message user_id =
     (case ainvoke (turn_input user_message) user_id of
        GraphReturns result \<Rightarrow> Inr result
      | GraphRaises (ExceptionInstance e) \<Rightarrow>
          Inr [''bot_response'' \<mapsto> PStr (''? Error: '' @ e),
               ''current_step'' \<mapsto> PStr ''error'',
               ''processing_status'' \<mapsto> PStr ''error'']
      | GraphRaises (BaseExceptionOnly e) \<Rightarrow> Inl (BaseExceptionOnly e))"

section \<open>Example collaborators\<close>

text \<open>
  Concrete collaborators for the worked examples: a backend that is down, one that
  answers every call, and a date library that reads two ISO dates (2000-01-01 and
  2030-01-01, both without offset) when the clock shows 2026-11-04 00:00 UTC.
\<close>

definition backend_down :: backend where
  "backend_down =
     \<lparr>create_campaign = (\<lambda>name. Inl ''backend down''),
      create_event = (\<lambda>event_input. Inl ''backend down''),
      update_event_status = (\<lambda>event_id status. Inl ''backend down''),
      get_group_by_id = (\<lambda>group_id. Inl ''backend down'')\<rparr>"

definition backend_up :: backend where
  "backend_up =
     \<lparr>create_campaign = (\<lambda>name. Inr (Some \<lparr>camp_id = Some ''c1''\<rparr>)),
      create_event = (\<lambda>event_input. Inr (Some \<lparr>ev_id = Some ''e1''\<rparr>)),
      update_event_status = (\<lambda>event_id status. Inr (Some \<lparr>ev_id = Some ''e1''\<rparr>)),
      get_group_by_id = (\<lambda>group_id. Inr (Some \<lparr>mg_link = Some ''https://chat.whatsapp.com/abc''\<rparr>))\<rparr>"

text \<open>A message constructor that takes strings and nothing else as content.\<close>

definition strings_only :: "pyval \<Rightarrow> bool" where
  "strings_only v = False"

definition lib_2026 :: pylib where
  "lib_2026 =
     \<lparr>fromisoformat = (\<lambda>str. if str = ''2000-01-01'' then Some \<lparr>wall = 63082281600000000, tzoff = None\<rparr>
                              else if str = ''2030-01-01'' then Some \<lparr>wall = 64029052800000000, tzoff = None\<rparr>
                              else None),
      strptime = (\<lambda>str fmt. None),
      now_utc = 63929347200000000\<rparr>"

text \<open>
  Records and an oracle reply for the worked examples: a record with every field
  collected, the same record without \<open>context\<close>, and a reply in which the user confirms.
\<close>

definition record_complete :: state where
  "record_complete =
     [''user_message'' \<mapsto> PStr ''dale, adelante'',
      ''current_step'' \<mapsto> PStr ''confirmation'',
      ''processing_status'' \<mapsto> PStr ''idle'',
      ''campaign_name'' \<mapsto> PStr ''Verano'',
      ''event_name'' \<mapsto> PStr ''Lanzamiento'',
      ''event_date'' \<mapsto> PStr ''2030-01-01'',
      ''timezone'' \<mapsto> PStr ''America/Bogota'',
      ''admins'' \<mapsto> PList [PStr ''573103435489''],
      ''context'' \<mapsto> PStr ''Lanzamiento de verano'']"

definition record_no_context :: state where
  "record_no_context = record_complete(''context'' := None)"

definition record_no_timezone :: state where
  "record_no_timezone = record_complete(''timezone'' := None)"

definition reply_confirms :: "(string \<times> pyval) list" where
  "reply_confirms =
     [(''next_step'', PStr ''confirmation''),
      (''bot_response'', PStr ''Perfecto, creando la campa?a...''),
      (''processing_status'', PStr ''creating_campaign''),
      (''is_campaign_related'', PBool True),
      (''parsed'', PDict [(''user_confirms'', PBool True)])]"

text \<open>
  The complete record once its campaign exists and its event is due, with a date in the
  past; a record whose event has been activated, asking for the group; a reply of the
  oracle that calls the group pending, and one that calls it ready but carries \<open>null\<close> as
  its text; and the record of a finished campaign.
\<close>

definition record_creating_event :: state where
  "record_creating_event =
     record_complete(''event_date'' \<mapsto> PStr ''2000-01-01'',
                     ''campaign_id'' \<mapsto> PStr ''c1'',
                     ''current_step'' \<mapsto> PStr ''create_event'',
                     ''processing_status'' \<mapsto> PStr ''creating_event'')"

definition record_waiting :: state where
  "record_waiting =
     [''user_message'' \<mapsto> PStr ''ya esta listo mi grupo?'',
      ''current_step'' \<mapsto> PStr ''check_status'',
      ''processing_status'' \<mapsto> PStr ''completed'',
      ''event_id'' \<mapsto> PStr ''e1'']"

definition reply_still_pending :: "(string \<times> pyval) list" where
  "reply_still_pending =
     [(''bot_response'', PStr ''Tu grupo sigue en proceso.''),
      (''current_step'', PStr ''wait''),
      (''processing_status'', PStr ''pending'')]"

definition reply_null_response :: "(string \<times> pyval) list" where
  "reply_null_response =
     [(''bot_response'', PNone),
      (''current_step'', PStr ''completed''),
      (''processing_status'', PStr ''completed'')]"

text \<open>
  A first reply to the status checker that declines the check and names
  \<open>creating_campaign\<close> as status, and a reply to the Router that only greets.
\<close>

definition reply_no_check_creating :: "(string \<times> pyval) list" where
  "reply_no_check_creating =
     [(''should_check'', PBool False),
      (''bot_response'', PStr ''Primero revisemos los datos de tu campa?a.''),
      (''next_step'', PStr ''wait''),
      (''processing_status'', PStr ''creating_campaign'')]"

definition reply_greets :: "(string \<times> pyval) list" where
  "reply_greets =
     [(''next_step'', PStr ''greeting''),
      (''bot_response'', PStr ''Hola, en que te ayudo?''),
      (''processing_status'', PStr ''idle''),
      (''is_campaign_related'', PBool True)]"

definition record_completed :: state where
  "record_completed =
     record_complete(''user_message'' \<mapsto> PStr ''quiero crear otra campa?a'',
                     ''current_step'' \<mapsto> PStr ''completed'',
                     ''processing_status'' \<mapsto> PStr ''completed'',
                     ''campaign_id'' \<mapsto> PStr ''c1'',
                     ''event_id'' \<mapsto> PStr ''e1'',
                     ''pending_event_id'' \<mapsto> PStr ''e1'',
                     ''whatsapp_group_url'' \<mapsto> PStr ''https://chat.whatsapp.com/abc'')"

text \<open>
  Three engines: one that answers every turn with the record of a greeting, one whose
  run fails with a timeout, and one whose task is cancelled while it is awaited.
\<close>

definition engine_greets :: "state \<Rightarrow> string \<Rightarrow> ainvoke_outcome" where
  "engine_greets input thread_id =
     GraphReturns (input(''current_step'' \<mapsto> PStr ''greeting'',
                         ''bot_response'' \<mapsto> PStr ''Hola, en que te ayudo?''))"

definition engine_times_out :: "state \<Rightarrow> string \<Rightarrow> ainvoke_outcome" where
  "engine_times_out input thread_id = GraphRaises (ExceptionInstance ''Request timed out.'')"

definition engine_cancelled :: "state \<Rightarrow> string \<Rightarrow> ainvoke_outcome" where
  "engine_cancelled input thread_id = GraphRaises (BaseExceptionOnly ''CancelledError'')"

section \<open>Auxiliary facts\<close>

subsection \<open>The phone-number scan\<close>

lemma takeWhile_prefix_all:
  "n \<le> length (takeWhile P xs) \<Longrightarrow> list_all P (take n xs) \<and> n \<le> length xs"
proof (induction xs arbitrary: n)
  case Nil
  then show ?case by simp
next
  case (Cons x xs)
  show ?case
  proof (cases n)
    case 0
    then show ?thesis by simp
  next
    case (Suc k)
    with Cons.prems have "P x" and "k \<le> length (takeWhile P xs)"
      by (auto split: if_splits)
    with Cons.IH [of k] Suc show ?thesis by simp
  qed
qed

lemma digit_run_seven:
  assumes "7 \<le> length (digit_run s)"
  shows "list_all is_digit (take 7 s) \<and> 7 \<le> length s"
proof -
  have "7 \<le> length (takeWhile is_digit s)" using assms by (simp add: digit_run_def)
  then show ?thesis by (rule takeWhile_prefix_all)
qed

lemma has_digit_seq_Cons: "has_digit_seq cs \<Longrightarrow> has_digit_seq (c # cs)"
  unfolding has_digit_seq_def
proof -
  assume "\<exists>i\<in>{0..length cs}. \<exists>n\<in>{7..15}. i + n \<le> length cs \<and> list_all is_digit (take n (drop i cs))"
  then obtain i n where "i \<le> length cs" "n \<in> {7..15}" "i + n \<le> length cs" "list_all is_digit (take n (drop i cs))"
    by auto
  then have "Suc i \<in> {0..length (c # cs)}" "Suc i + n \<le> length (c # cs)" "list_all is_digit (take n (drop (Suc i) (c # cs)))"
    by auto
  with \<open>n \<in> {7..15}\<close> show "\<exists>i\<in>{0..length (c # cs)}. \<exists>n\<in>{7..15}. i + n \<le> length (c # cs) \<and> list_all is_digit (take n (drop i (c # cs)))"
    by blast
qed

lemma match_phone_has_digit_seq:
  assumes "match_phone s = Some x"
  shows "has_digit_seq s"
proof (cases s)
  case Nil
  with assms show ?thesis by (simp add: match_phone_def)
next
  case (Cons c cs)
  show ?thesis
  proof (cases "c = CHR ''+''")
    case True
    with assms Cons have "7 \<le> length (digit_run cs)"
      by (auto simp: match_phone_def Let_def split: if_splits)
    then have "list_all is_digit (take 7 cs) \<and> 7 \<le> length cs" by (rule digit_run_seven)
    then have "has_digit_seq cs"
      unfolding has_digit_seq_def by (intro bexI [of _ 0] bexI [of _ 7]) auto
    then show ?thesis using Cons by (simp add: has_digit_seq_Cons)
  next
    case False
    with assms Cons have "7 \<le> length (digit_run s)"
      by (auto simp: match_phone_def Let_def split: if_splits)
    then have "list_all is_digit (take 7 s) \<and> 7 \<le> length s" by (rule digit_run_seven)
    then show ?thesis
      unfolding has_digit_seq_def by (intro bexI [of _ 0] bexI [of _ 7]) auto
  qed
qed

lemma scan_phone_empty: "\<not> has_digit_seq s \<Longrightarrow> scan_phone k s = []"
proof (induction k s rule: scan_phone.induct)
  case (1 k)
  then show ?case by simp
next
  case (2 k c cs)
  then show ?case using has_digit_seq_Cons by auto
next
  case (3 c cs)
  then have "match_phone (c # cs) = None"
    using match_phone_has_digit_seq by (cases "match_phone (c # cs)") auto
  moreover have "\<not> has_digit_seq cs" using 3 has_digit_seq_Cons by blast
  ultimately show ?case using 3 by simp
qed

lemma findall_phone_empty: "\<not> has_digit_seq m \<Longrightarrow> findall_phone m = []"
  by (simp add: findall_phone_def scan_phone_empty)

lemma short_no_digit_seq: "length m < 7 \<Longrightarrow> \<not> has_digit_seq m"
  by (auto simp: has_digit_seq_def)

text \<open>The scan finds nothing exactly on the texts without such a sequence.\<close>

lemma all_prefix_takeWhile:
  "n \<le> length xs \<Longrightarrow> list_all P (take n xs) \<Longrightarrow> n \<le> length (takeWhile P xs)"
proof (induction xs arbitrary: n)
  case Nil
  then show ?case by simp
next
  case (Cons x xs)
  show ?case
  proof (cases n)
    case 0
    then show ?thesis by simp
  next
    case (Suc k)
    with Cons.prems have "P x" "k \<le> length xs" "list_all P (take k xs)" by simp_all
    with Cons.IH [of k] Suc show ?thesis by simp
  qed
qed

lemma digit_run_long:
  assumes "7 \<le> n" and "n \<le> length s" and "list_all is_digit (take n s)"
  shows "7 \<le> length (digit_run s)"
proof -
  have "n \<le> length (takeWhile is_digit s)"
    using assms(2,3) by (rule all_prefix_takeWhile)
  with assms(1) show ?thesis by (simp add: digit_run_def)
qed

lemma is_digit_not_plus: "is_digit c \<Longrightarrow> c \<noteq> CHR ''+''"
  by (auto simp: is_digit_def)

lemma has_digit_seq_scan: "has_digit_seq s \<Longrightarrow> scan_phone 0 s \<noteq> []"
proof (induction s)
  case Nil
  then show ?case by (simp add: has_digit_seq_def)
next
  case (Cons c cs)
  show ?case
  proof (cases "match_phone (c # cs)")
    case (Some m)
    then show ?thesis by simp
  next
    case None
    from Cons.prems obtain i n where in': "i \<le> length (c # cs)" "7 \<le> n" "n \<le> 15"
      "i + n \<le> length (c # cs)" "list_all is_digit (take n (drop i (c # cs)))"
      by (auto simp: has_digit_seq_def)
    have "i \<noteq> 0"
    proof
      assume "i = 0"
      with in' have r: "7 \<le> length (digit_run (c # cs))"
        by (intro digit_run_long [of n]) simp_all
      from in' \<open>i = 0\<close> have "is_digit c" by (cases n) simp_all
      then have "c \<noteq> CHR ''+''" by (rule is_digit_not_plus)
      with r None show False by (simp add: match_phone_def Let_def)
    qed
    then obtain j where j: "i = Suc j" by (cases i) simp_all
    with in' have "has_digit_seq cs"
      unfolding has_digit_seq_def by (intro bexI [of _ j] bexI [of _ n]) simp_all
    with Cons.IH None show ?thesis by simp
  qed
qed

lemma findall_phone_empty_iff: "findall_phone m = [] \<longleftrightarrow> \<not> has_digit_seq m"
  using has_digit_seq_scan [of m] findall_phone_empty [of m] by (auto simp: findall_phone_def)

subsection \<open>The Router's assignments\<close>

lemma set_text_field_other: "k' \<noteq> k \<Longrightarrow> set_text_field k cs um p s k' = s k'"
  by (simp add: set_text_field_def)

lemma set_admins_other: "k' \<noteq> ''admins'' \<Longrightarrow> set_admins cs um p s k' = s k'"
  by (simp add: set_admins_def Let_def split: pyval.splits)

lemma set_confirmation_other:
  "k' \<noteq> ''processing_status'' \<Longrightarrow> k' \<noteq> ''bot_response'' \<Longrightarrow> set_confirmation p s k' = s k'"
  by (simp add: set_confirmation_def)

lemma set_event_id_other: "k' \<noteq> ''event_id'' \<Longrightarrow> set_event_id p s k' = s k'"
  by (simp add: set_event_id_def)

lemma required_data_set_confirmation: "required_data (set_confirmation p s) = required_data s"
  by (simp add: required_data_def sget_def set_confirmation_other)

lemma required_data_set_event_id: "required_data (set_event_id p s) = required_data s"
  by (simp add: required_data_def sget_def set_event_id_other)

lemma required_data_bot_response: "required_data (s(''bot_response'' \<mapsto> v)) = required_data s"
  by (simp add: required_data_def sget_def)

lemma router_fields_admins:
  assumes "\<not> truthy (dict_get parsed ''admins'')" and "cs = PStr ''admins''"
    and "strip m \<noteq> []" and "findall_phone m = []"
  shows "fst (router_fields cs m parsed s2) ''admins'' = Some (PList [PStr (strip m)])"
  using assms
  by (simp add: router_fields_def Let_def set_event_id_other set_confirmation_other
      set_text_field_other set_admins_def)

lemma set_confirmation_confirmed:
  assumes "truthy (dict_get parsed ''user_confirms'')"
  shows "set_confirmation parsed s =
     (if list_all truthy (required_data s) then s(''processing_status'' \<mapsto> PStr ''creating_campaign'')
      else s(''bot_response'' \<mapsto> PStr msg_missing_fields, ''processing_status'' \<mapsto> PStr ''idle''))"
proof -
  from assms have "dict_get parsed ''user_confirms'' \<noteq> PNone" by auto
  with assms show ?thesis by (simp add: set_confirmation_def)
qed

lemma router_fields_unfold:
  "router_fields cs m parsed s2 =
     (let s8 = set_text_field ''context'' cs m parsed
                (set_admins cs m parsed
                  (set_text_field ''timezone'' cs m parsed
                    (set_text_field ''event_date'' cs m parsed
                      (set_text_field ''event_name'' cs m parsed
                        (set_text_field ''campaign_name'' cs m parsed s2)))));
          s10 = set_event_id parsed (set_confirmation parsed s8)
      in (s10, \<not> sliceable (sget s10 ''bot_response'')))"
  by (simp add: router_fields_def Let_def)

lemma router_fields_confirmed:
  assumes "truthy (dict_get parsed ''user_confirms'')"
  shows "(list_all truthy (required_data (fst (router_fields cs m parsed s2)))
            \<longrightarrow> fst (router_fields cs m parsed s2) ''processing_status'' = Some (PStr ''creating_campaign''))
       \<and> (\<not> list_all truthy (required_data (fst (router_fields cs m parsed s2)))
            \<longrightarrow> fst (router_fields cs m parsed s2) ''processing_status'' = Some (PStr ''idle'')
              \<and> fst (router_fields cs m parsed s2) ''bot_response'' = Some (PStr msg_missing_fields)
              \<and> \<not> snd (router_fields cs m parsed s2))"
proof -
  define s8 where "s8 = set_text_field ''context'' cs m parsed
                (set_admins cs m parsed
                  (set_text_field ''timezone'' cs m parsed
                    (set_text_field ''event_date'' cs m parsed
                      (set_text_field ''event_name'' cs m parsed
                        (set_text_field ''campaign_name'' cs m parsed s2)))))"
  have rf: "router_fields cs m parsed s2 =
      (set_event_id parsed (set_confirmation parsed s8),
       \<not> sliceable (sget (set_event_id parsed (set_confirmation parsed s8)) ''bot_response''))"
    by (simp add: router_fields_unfold s8_def Let_def)
  have rd: "required_data (fst (router_fields cs m parsed s2)) = required_data s8"
    by (simp add: rf required_data_set_event_id required_data_set_confirmation)
  have ps: "fst (router_fields cs m parsed s2) ''processing_status'' = set_confirmation parsed s8 ''processing_status''"
    by (simp add: rf set_event_id_other)
  have br: "fst (router_fields cs m parsed s2) ''bot_response'' = set_confirmation parsed s8 ''bot_response''"
    by (simp add: rf set_event_id_other)
  have sn: "snd (router_fields cs m parsed s2) = (\<not> sliceable (sget (fst (router_fields cs m parsed s2)) ''bot_response''))"
    by (simp add: rf)
  have c: "set_confirmation parsed s8 =
     (if list_all truthy (required_data s8) then s8(''processing_status'' \<mapsto> PStr ''creating_campaign'')
      else s8(''bot_response'' \<mapsto> PStr msg_missing_fields, ''processing_status'' \<mapsto> PStr ''idle''))"
    by (rule set_confirmation_confirmed [OF assms])
  show ?thesis
    by (simp add: rd ps br sn c sget_def)
qed

lemma set_confirmation_status:
  assumes "set_confirmation parsed s ''processing_status'' = Some (PStr ''creating_campaign'')"
  shows "s ''processing_status'' = Some (PStr ''creating_campaign'')
       \<or> (truthy (dict_get parsed ''user_confirms'') \<and> list_all truthy (required_data s))"
  using assms by (auto simp: set_confirmation_def split: if_splits)

lemma router_fields_status:
  assumes "fst (router_fields cs m parsed s2) ''processing_status'' = Some (PStr ''creating_campaign'')"
  shows "s2 ''processing_status'' = Some (PStr ''creating_campaign'')
       \<or> (truthy (dict_get parsed ''user_confirms'')
           \<and> list_all truthy (required_data (fst (router_fields cs m parsed s2))))"
proof -
  let ?s8 = "set_text_field ''context'' cs m parsed
      (set_admins cs m parsed
        (set_text_field ''timezone'' cs m parsed
          (set_text_field ''event_date'' cs m parsed
            (set_text_field ''event_name'' cs m parsed
              (set_text_field ''campaign_name'' cs m parsed s2)))))"
  have f: "fst (router_fields cs m parsed s2) = set_event_id parsed (set_confirmation parsed ?s8)"
    by (simp add: router_fields_def Let_def)
  from assms have "set_confirmation parsed ?s8 ''processing_status'' = Some (PStr ''creating_campaign'')"
    by (simp add: f set_event_id_other)
  then have "?s8 ''processing_status'' = Some (PStr ''creating_campaign'')
       \<or> (truthy (dict_get parsed ''user_confirms'') \<and> list_all truthy (required_data ?s8))"
    by (rule set_confirmation_status)
  moreover have "?s8 ''processing_status'' = s2 ''processing_status''"
    by (simp add: set_text_field_other set_admins_other)
  moreover have "required_data (fst (router_fields cs m parsed s2)) = required_data ?s8"
    by (simp add: f required_data_set_event_id required_data_set_confirmation)
  ultimately show ?thesis by simp
qed

lemma router_node_in_domain:
  assumes "sget_d s ''user_message'' (PStr []) = PStr m"
    and "truthy (dict_get_d res ''is_campaign_related'' (PBool True))"
    and "parsed_of res = PDict parsed"
  shows "router_node (Replies content (Good (PDict res))) s =
     Inr (case router_fields (sget_d s ''current_step'' (PStr ''greeting'')) m parsed
                 (router_adopt (sget_d s ''current_step'' (PStr ''greeting'')) res
                    (s(''messages'' \<mapsto> ai_message (PStr content) ''router''))) of
            (s', raised) \<Rightarrow> if raised then s'(''bot_response'' \<mapsto> PStr msg_router_error) else s',
          [OracleCall ''router''])"
  using assms
  by (simp add: router_node_def router_try_def router_apply_def router_in_domain_def Let_def
      split: prod.splits)

lemma router_adopt_status:
  "router_adopt cs res s ''processing_status'' = s ''processing_status''
   \<or> router_adopt cs res s ''processing_status'' = Some (PStr ''checking_status'')
   \<or> router_adopt cs res s ''processing_status'' = Some (PStr ''out_of_context'')"
  by (auto simp: router_adopt_def Let_def)


lemma router_in_domain_status:
  assumes "router_in_domain cs m res s = (s', raised)"
    and "s' ''processing_status'' = Some (PStr ''creating_campaign'')"
  shows "s ''processing_status'' = Some (PStr ''creating_campaign'')
       \<or> (\<exists>parsed. parsed_of res = PDict parsed \<and> truthy (dict_get parsed ''user_confirms'')
             \<and> list_all truthy (required_data s'))"
proof (cases "\<exists>parsed. parsed_of res = PDict parsed")
  case True
  then obtain parsed where p: "parsed_of res = PDict parsed" by blast
  with assms(1) have rf: "router_fields cs m parsed (router_adopt cs res s) = (s', raised)"
    by (simp add: router_in_domain_def)
  then have "fst (router_fields cs m parsed (router_adopt cs res s)) ''processing_status'' = Some (PStr ''creating_campaign'')"
    using assms(2) by simp
  from router_fields_status [OF this] rf
  have "router_adopt cs res s ''processing_status'' = Some (PStr ''creating_campaign'')
       \<or> (truthy (dict_get parsed ''user_confirms'') \<and> list_all truthy (required_data s'))"
    by simp
  then show ?thesis
    using router_adopt_status [of cs res s] p by auto
next
  case False
  with assms(1) have "s' = router_adopt cs res s"
    by (auto simp: router_in_domain_def split: pyval.splits)
  then show ?thesis
    using router_adopt_status [of cs res s] assms(2) by auto
qed

lemma router_try_status:
  assumes "router_try orc cs m s = (s', raised)"
    and "s' ''processing_status'' = Some (PStr ''creating_campaign'')"
  shows "s ''processing_status'' = Some (PStr ''creating_campaign'')
       \<or> (\<exists>content res parsed. orc = Replies content (Good (PDict res))
             \<and> truthy (dict_get_d res ''is_campaign_related'' (PBool True))
             \<and> parsed_of res = PDict parsed \<and> truthy (dict_get parsed ''user_confirms'')
             \<and> list_all truthy (required_data s'))"
proof (cases orc)
  case (CallFails e)
  with assms show ?thesis by (simp add: router_try_def)
next
  case (Replies content d)
  show ?thesis
  proof (cases d)
    case (Bad e)
    with Replies assms show ?thesis
      by (auto simp: router_try_def router_apply_def router_fallback_def dict_get_d_def)
  next
    case (Good v)
    show ?thesis
    proof (cases "\<exists>res. v = PDict res \<and> truthy (dict_get_d res ''is_campaign_related'' (PBool True))")
      case True
      then obtain res where v: "v = PDict res"
        and t: "truthy (dict_get_d res ''is_campaign_related'' (PBool True))" by blast
      with Replies Good assms(1)
      have "router_in_domain cs m res (s(''messages'' \<mapsto> ai_message (PStr content) ''router'')) = (s', raised)"
        by (simp add: router_try_def router_apply_def)
      from router_in_domain_status [OF this assms(2)] Replies Good v t
      show ?thesis by auto
    next
      case False
      with Replies Good assms show ?thesis
        by (auto simp: router_try_def router_apply_def split: pyval.splits if_splits)
    qed
  qed
qed

lemmas router_eval = router_node_def router_try_def router_apply_def router_in_domain_def
  router_adopt_def router_fields_def set_text_field_def set_admins_def set_confirmation_def
  set_event_id_def parsed_of_def dict_get_def dict_get_d_def sget_def sget_d_def required_data_def
  Let_def

subsection \<open>The creation nodes and the status checker\<close>

lemmas whatsapp_eval = whatsapp_group_creator_node_def activate_event_def set_error_def sget_def
  dict_get_d_def Let_def

lemma create_event_past:
  assumes "resolve_event_date lib event_date = Inr d" and "wall d \<le> now_utc lib"
  shows "create_event_for_campaign lib be campaign_id name event_date administrators context tz_name
           = (Inl (InvalidEventDate ''Event date must be in the future'' msg_future_date), [])"
  using assms by (simp add: create_event_for_campaign_def)

lemma create_event_no_call_when_error:
  "fst (create_event_for_campaign lib be campaign_id name event_date administrators context tz_name) = Inl (InvalidEventDate m b)
     \<Longrightarrow> snd (create_event_for_campaign lib be campaign_id name event_date administrators context tz_name) = []"
  by (auto simp: create_event_for_campaign_def Let_def split: sum.splits if_splits)

lemma event_creator_decision_error:
  "sget_d s ''current_step'' (PStr ''error'') = PStr ''error'' \<Longrightarrow> graph_next EventCreator s = None"
  by (simp add: graph_next_def event_creator_decision_def edge_def Let_def)

lemmas service_eval = create_event_for_campaign_def resolve_event_date_def parse_event_date_def
  to_utc_def max_wall_def lib_2026_def

lemma status_node_checked:
  assumes "should_check_status orc1 = PDict decision"
    and "truthy (dict_get_d decision ''should_check'' (PBool True))"
    and "eid = (if truthy (sget s ''event_id'') then sget s ''event_id'' else sget s ''pending_event_id'')"
    and "truthy eid"
    and "node_get_group_status be eid = ((status_result, group_link, error_message), calls)"
  shows "group_status_checker_node orc1 orc2 msg_ok be s =
     (case generate_status_response orc2 status_result group_link of
        PDict response_data \<Rightarrow>
          status_finish msg_ok
            ((if status_result = ''ready''
              then s(''whatsapp_group_url'' \<mapsto> PStr group_link, ''came_from_status_check'' \<mapsto> PBool True)
              else s)
               (''bot_response'' \<mapsto> dict_get_d response_data ''bot_response'' (PStr ''Estado consultado.''),
                ''current_step'' \<mapsto> dict_get_d response_data ''current_step'' (PStr ''wait''),
                ''processing_status'' \<mapsto> dict_get_d response_data ''processing_status'' (PStr ''pending'')))
      | v \<Rightarrow> status_failed (if status_result = ''ready''
              then s(''whatsapp_group_url'' \<mapsto> PStr group_link, ''came_from_status_check'' \<mapsto> PBool True)
              else s),
      OracleCall ''status_decision'' # calls @ [OracleCall ''status_response''])"
proof -
  have "group_status_checker_node orc1 orc2 msg_ok be s =
      (case node_get_group_status be eid of
                  ((status_result, group_link, error_message), calls) \<Rightarrow>
                    (let s1 = (if status_result = ''ready''
                               then s(''whatsapp_group_url'' \<mapsto> PStr group_link,
                                      ''came_from_status_check'' \<mapsto> PBool True)
                               else s);
                         log = OracleCall ''status_decision'' # calls @ [OracleCall ''status_response'']
                     in case generate_status_response orc2 status_result group_link of
                          PDict response_data \<Rightarrow>
                            (status_finish msg_ok
                               (s1(''bot_response'' \<mapsto> dict_get_d response_data ''bot_response'' (PStr ''Estado consultado.''),
                                   ''current_step'' \<mapsto> dict_get_d response_data ''current_step'' (PStr ''wait''),
                                   ''processing_status'' \<mapsto> dict_get_d response_data ''processing_status'' (PStr ''pending''))),
                             log)
                        | v \<Rightarrow> (status_failed s1, log)))"
    using assms(1-4) unfolding group_status_checker_node_def by (simp add: Let_def)
  then show ?thesis
    by (simp add: assms(5) Let_def split: pyval.splits)
qed

lemma status_finish_fields:
  "k \<noteq> ''messages'' \<Longrightarrow> accepts_content msg_ok (sget s ''bot_response'') \<Longrightarrow> status_finish msg_ok s k = s k"
  by (simp add: status_finish_def)

lemma status_finish_refused:
  "\<not> accepts_content msg_ok (sget s ''bot_response'') \<Longrightarrow> status_finish msg_ok s = status_failed s"
  by (simp add: status_finish_def)

lemma status_failed_fields:
  "sget (status_failed s) ''current_step'' = PStr ''error''"
  "sget (status_failed s) ''processing_status'' = PStr ''error''"
  "k \<notin> {''messages'', ''bot_response'', ''current_step'', ''processing_status''} \<Longrightarrow> status_failed s k = s k"
  by (simp_all add: status_failed_def set_error_def sget_def)

lemma status_finish_url:
  "status_finish msg_ok s ''whatsapp_group_url'' = s ''whatsapp_group_url''"
  by (simp add: status_finish_def status_failed_def set_error_def)

lemma node_get_group_status_cases:
  "node_get_group_status be eid =
     (case get_group_by_id be eid of
        Inr (Some g) \<Rightarrow>
          (case mg_link g of
             Some l \<Rightarrow> if l \<noteq> [] then ((''ready'', l, []), [GetGroupStatus eid])
                       else ((''pending'', ''No disponible'', []), [GetGroupStatus eid])
           | None \<Rightarrow> ((''pending'', ''No disponible'', []), [GetGroupStatus eid]))
      | Inr None \<Rightarrow> ((''not_found'', ''No disponible'', []), [GetGroupStatus eid])
      | Inl e \<Rightarrow> ((''error'', ''No disponible'', ''Error interno''), [GetGroupStatus eid]))"
  by (simp add: node_get_group_status_def get_group_status_def split: sum.splits option.splits)

lemmas status_eval = group_status_checker_node_def should_check_status_def parse_llm_response_def
  node_get_group_status_def get_group_status_def generate_status_response_def fallback_responses_def
  status_finish_def status_failed_def accepts_content_def set_error_def dict_get_d_def sget_def Let_def

subsection \<open>Where a \<open>processing_status\<close> can come from\<close>

lemma dict_get_d_literal:
  "dict_get_d res k (PStr d) = PStr v \<Longrightarrow> d \<noteq> v \<Longrightarrow> map_of res k = Some (PStr v)"
  by (auto simp: dict_get_d_def split: option.splits)

lemma campaign_creator_copies_status:
  assumes "fst (campaign_creator_node orc be s) ''processing_status'' = Some (PStr ''creating_campaign'')"
  shows "reply_carries_status orc ''creating_campaign''"
  using assms
  by (auto simp: campaign_creator_node_def reply_carries_status_def set_error_def Let_def
      create_campaign_with_defaults_def
      split: reply.splits decoded.splits pyval.splits if_splits sum.splits option.splits
      dest!: dict_get_d_literal)

lemma event_creator_copies_status:
  assumes "fst (event_creator_node orc lib be s) ''processing_status'' = Some (PStr ''creating_campaign'')"
  shows "reply_carries_status orc ''creating_campaign''"
  using assms
  by (auto simp: event_creator_node_def reply_carries_status_def set_error_def Let_def
      event_creator_fallback_def
      split: reply.splits decoded.splits pyval.splits if_splits sum.splits option.splits exn.splits prod.splits
      dest!: dict_get_d_literal)

lemma whatsapp_copies_status:
  assumes "fst (whatsapp_group_creator_node orc be s) ''processing_status'' = Some (PStr ''creating_campaign'')"
  shows "reply_carries_status orc ''creating_campaign''"
  using assms
  by (auto simp: whatsapp_group_creator_node_def reply_carries_status_def set_error_def Let_def
      whatsapp_fallback_def activate_event_def
      split: reply.splits decoded.splits pyval.splits if_splits sum.splits option.splits prod.splits
      dest!: dict_get_d_literal)

lemma completion_keeps_status:
  assumes "fst (completion_node orc s) ''processing_status'' = Some (PStr ''creating_campaign'')"
  shows "s ''processing_status'' = Some (PStr ''creating_campaign'')"
  using assms
  by (auto simp: completion_node_def new_state_def new_state_items_def Let_def
      split: reply.splits decoded.splits pyval.splits if_splits)


lemma status_finish_status:
  "status_finish msg_ok s ''processing_status'' = Some (PStr ''creating_campaign'')
     \<Longrightarrow> s ''processing_status'' = Some (PStr ''creating_campaign'')"
  by (auto simp: status_finish_def status_failed_def set_error_def split: if_splits)

lemma should_check_carries:
  "should_check_status orc = PDict decision
     \<Longrightarrow> dict_get_d decision ''processing_status'' (PStr ''pending'') = PStr ''creating_campaign''
     \<Longrightarrow> reply_carries_status orc ''creating_campaign''"
  by (auto simp: should_check_status_def parse_llm_response_def reply_carries_status_def dict_get_d_def
      split: reply.splits decoded.splits option.splits)

lemma generate_carries:
  "generate_status_response orc status_result group_link = PDict rd
     \<Longrightarrow> dict_get_d rd ''processing_status'' (PStr ''pending'') = PStr ''creating_campaign''
     \<Longrightarrow> reply_carries_status orc ''creating_campaign''"
  by (auto simp: generate_status_response_def parse_llm_response_def fallback_responses_def
      reply_carries_status_def dict_get_d_def
      split: reply.splits decoded.splits option.splits if_splits)

lemma status_checker_copies_status:
  assumes "fst (group_status_checker_node orc1 orc2 msg_ok be s) ''processing_status'' = Some (PStr ''creating_campaign'')"
  shows "reply_carries_status orc1 ''creating_campaign'' \<or> reply_carries_status orc2 ''creating_campaign''"
proof (cases "should_check_status orc1")
  case (PDict decision)
  let ?eid = "if truthy (sget s ''event_id'') then sget s ''event_id'' else sget s ''pending_event_id''"
  show ?thesis
  proof (cases "truthy (dict_get_d decision ''should_check'' (PBool True)) \<and> truthy ?eid")
    case True
    obtain status_result group_link error_message calls
      where g: "node_get_group_status be ?eid = ((status_result, group_link, error_message), calls)"
      by (metis prod.exhaust)
    from True have t: "truthy (dict_get_d decision ''should_check'' (PBool True))" "truthy ?eid" by simp_all
    note n = status_node_checked [OF PDict t(1) refl t(2) g]
    show ?thesis
    proof (cases "generate_status_response orc2 status_result group_link")
      case (PDict rd)
      with assms n have "dict_get_d rd ''processing_status'' (PStr ''pending'') = PStr ''creating_campaign''"
        by (auto dest!: status_finish_status)
      from generate_carries [OF PDict this] show ?thesis by simp
    qed (use assms n in \<open>simp_all add: status_failed_def set_error_def\<close>)
  next
    case False
    with assms PDict have "dict_get_d decision ''processing_status'' (PStr ''pending'') = PStr ''creating_campaign''"
      by (auto simp: group_status_checker_node_def Let_def dest!: status_finish_status split: if_splits)
    from should_check_carries [OF PDict this] show ?thesis by simp
  qed
qed (use assms in \<open>simp_all add: group_status_checker_node_def Let_def status_failed_def set_error_def\<close>)


subsection \<open>The reset\<close>

lemma completion_new_campaign:
  assumes "dict_get res ''action'' = PStr ''new_campaign'' \<or> truthy (dict_get res ''reset_state'')"
  shows "completion_node (Replies content (Good (PDict res))) s = (new_state, [OracleCall ''completion''])"
  using assms by (auto simp: completion_node_def)

lemma dom_new_state:
  "dom new_state = {''messages'', ''campaign_name'', ''event_name'', ''event_date'', ''admins'',
     ''context'', ''current_step'', ''user_message'', ''bot_response'', ''campaign_id'', ''event_id'',
     ''whatsapp_group_url'', ''processing_status''}"
  by (auto simp: new_state_def new_state_items_def split: if_splits)

subsection \<open>Where \<open>creating_campaign\<close> comes from\<close>

lemma required_data_all:
  "list_all truthy (required_data s) \<longleftrightarrow>
     (truthy (sget s ''campaign_name'') \<and> truthy (sget s ''event_name'')
      \<and> truthy (sget s ''event_date'') \<and> truthy (sget s ''timezone'')
      \<and> truthy (sget s ''admins'') \<and> truthy (sget s ''context''))"
  by (simp add: required_data_def)

lemma router_creating_campaign_paths:
  "(sget_d s ''user_message'' (PStr []) = PStr m
      \<and> truthy (dict_get_d res ''is_campaign_related'' (PBool True))
      \<and> parsed_of res = PDict parsed
      \<and> truthy (dict_get parsed ''user_confirms'')
    \<longrightarrow> (\<exists>s'. router_node (Replies content (Good (PDict res))) s = Inr (s', [OracleCall ''router''])
           \<and> (list_all truthy (required_data s')
                \<longrightarrow> s' ''processing_status'' = Some (PStr ''creating_campaign''))
           \<and> (\<not> list_all truthy (required_data s')
                \<longrightarrow> s' ''processing_status'' = Some (PStr ''idle'')
                  \<and> s' ''bot_response'' = Some (PStr msg_missing_fields))))
   \<and> (router_node orc s = Inr (t, log) \<and> t ''processing_status'' = Some (PStr ''creating_campaign'')
    \<longrightarrow> s ''processing_status'' = Some (PStr ''creating_campaign'')
        \<or> (\<exists>content res parsed. orc = Replies content (Good (PDict res))
             \<and> truthy (dict_get_d res ''is_campaign_related'' (PBool True))
             \<and> parsed_of res = PDict parsed \<and> truthy (dict_get parsed ''user_confirms'')
             \<and> list_all truthy (required_data t)))
   \<and> (fst (campaign_creator_node orc be s) ''processing_status'' = Some (PStr ''creating_campaign'')
    \<longrightarrow> reply_carries_status orc ''creating_campaign'')
   \<and> (fst (event_creator_node orc lib be s) ''processing_status'' = Some (PStr ''creating_campaign'')
    \<longrightarrow> reply_carries_status orc ''creating_campaign'')
   \<and> (fst (whatsapp_group_creator_node orc be s) ''processing_status'' = Some (PStr ''creating_campaign'')
    \<longrightarrow> reply_carries_status orc ''creating_campaign'')
   \<and> (fst (group_status_checker_node orc orc2 msg_ok be s) ''processing_status'' = Some (PStr ''creating_campaign'')
    \<longrightarrow> reply_carries_status orc ''creating_campaign'' \<or> reply_carries_status orc2 ''creating_campaign'')
   \<and> (fst (completion_node orc s) ''processing_status'' = Some (PStr ''creating_campaign'')
    \<longrightarrow> s ''processing_status'' = Some (PStr ''creating_campaign''))"
proof (intro conjI impI)
  assume a: "sget_d s ''user_message'' (PStr []) = PStr m
      \<and> truthy (dict_get_d res ''is_campaign_related'' (PBool True))
      \<and> parsed_of res = PDict parsed
      \<and> truthy (dict_get parsed ''user_confirms'')"
  let ?rf = "router_fields (sget_d s ''current_step'' (PStr ''greeting'')) m parsed
                 (router_adopt (sget_d s ''current_step'' (PStr ''greeting'')) res
                    (s(''messages'' \<mapsto> ai_message (PStr content) ''router'')))"
  let ?s' = "if snd ?rf then (fst ?rf)(''bot_response'' \<mapsto> PStr msg_router_error) else fst ?rf"
  from a have n: "router_node (Replies content (Good (PDict res))) s = Inr (?s', [OracleCall ''router''])"
    by (simp add: router_node_in_domain split: prod.splits)
  from a have c: "(list_all truthy (required_data (fst ?rf))
            \<longrightarrow> fst ?rf ''processing_status'' = Some (PStr ''creating_campaign''))
       \<and> (\<not> list_all truthy (required_data (fst ?rf))
            \<longrightarrow> fst ?rf ''processing_status'' = Some (PStr ''idle'')
              \<and> fst ?rf ''bot_response'' = Some (PStr msg_missing_fields)
              \<and> \<not> snd ?rf)"
    by (intro router_fields_confirmed) simp
  have rd: "required_data ?s' = required_data (fst ?rf)"
    by (simp add: required_data_bot_response)
  have "(list_all truthy (required_data ?s') \<longrightarrow> ?s' ''processing_status'' = Some (PStr ''creating_campaign''))
           \<and> (\<not> list_all truthy (required_data ?s')
                \<longrightarrow> ?s' ''processing_status'' = Some (PStr ''idle'')
                  \<and> ?s' ''bot_response'' = Some (PStr msg_missing_fields))"
    using c unfolding rd by auto
  with n show "\<exists>s'. router_node (Replies content (Good (PDict res))) s = Inr (s', [OracleCall ''router''])
           \<and> (list_all truthy (required_data s')
                \<longrightarrow> s' ''processing_status'' = Some (PStr ''creating_campaign''))
           \<and> (\<not> list_all truthy (required_data s')
                \<longrightarrow> s' ''processing_status'' = Some (PStr ''idle'')
                  \<and> s' ''bot_response'' = Some (PStr msg_missing_fields))"
    by blast
next
  assume b: "router_node orc s = Inr (t, log) \<and> t ''processing_status'' = Some (PStr ''creating_campaign'')"
  then obtain m where um: "sget_d s ''user_message'' (PStr []) = PStr m"
    by (auto simp: router_node_def split: pyval.splits)
  obtain s' raised where rt: "router_try orc (sget_d s ''current_step'' (PStr ''greeting'')) m s = (s', raised)"
    by (cases "router_try orc (sget_d s ''current_step'' (PStr ''greeting'')) m s") auto
  with b um have t: "t = (if raised then s'(''bot_response'' \<mapsto> PStr msg_router_error) else s')"
    by (auto simp: router_node_def Let_def)
  then have "s' ''processing_status'' = Some (PStr ''creating_campaign'')"
    using b by (auto split: if_splits)
  from router_try_status [OF rt this]
  have "s ''processing_status'' = Some (PStr ''creating_campaign'')
       \<or> (\<exists>content res parsed. orc = Replies content (Good (PDict res))
             \<and> truthy (dict_get_d res ''is_campaign_related'' (PBool True))
             \<and> parsed_of res = PDict parsed \<and> truthy (dict_get parsed ''user_confirms'')
             \<and> list_all truthy (required_data s'))" .
  moreover have "required_data t = required_data s'"
    using t by (simp add: required_data_bot_response)
  ultimately show "s ''processing_status'' = Some (PStr ''creating_campaign'')
        \<or> (\<exists>content res parsed. orc = Replies content (Good (PDict res))
             \<and> truthy (dict_get_d res ''is_campaign_related'' (PBool True))
             \<and> parsed_of res = PDict parsed \<and> truthy (dict_get parsed ''user_confirms'')
             \<and> list_all truthy (required_data t))"
    by simp
next
  assume "fst (campaign_creator_node orc be s) ''processing_status'' = Some (PStr ''creating_campaign'')"
  then show "reply_carries_status orc ''creating_campaign''"
    by (rule campaign_creator_copies_status)
next
  assume "fst (event_creator_node orc lib be s) ''processing_status'' = Some (PStr ''creating_campaign'')"
  then show "reply_carries_status orc ''creating_campaign''"
    by (rule event_creator_copies_status)
next
  assume "fst (whatsapp_group_creator_node orc be s) ''processing_status'' = Some (PStr ''creating_campaign'')"
  then show "reply_carries_status orc ''creating_campaign''"
    by (rule whatsapp_copies_status)
next
  assume "fst (group_status_checker_node orc orc2 msg_ok be s) ''processing_status'' = Some (PStr ''creating_campaign'')"
  then show "reply_carries_status orc ''creating_campaign'' \<or> reply_carries_status orc2 ''creating_campaign''"
    by (rule status_checker_copies_status)
next
  assume "fst (completion_node orc s) ''processing_status'' = Some (PStr ''creating_campaign'')"
  then show "s ''processing_status'' = Some (PStr ''creating_campaign'')"
    by (rule completion_keeps_status)
qed

section \<open>Properties of the Router node\<close>

text \<open>
  C1, as amended. Take a reply of the oracle that decodes to an object, is
  campaign-related and whose extracted values (\<open>parsed\<close>) hold a true \<open>user_confirms\<close>.
  Then the Router returns a record, and in it: if all six of \<open>campaign_name\<close>,
  \<open>event_name\<close>, \<open>event_date\<close>, \<open>timezone\<close>, \<open>admins\<close> and \<open>context\<close> are non-empty,
  \<open>processing_status\<close> is \<open>creating_campaign\<close>; if one of them is empty,
  \<open>processing_status\<close> is \<open>idle\<close> and \<open>bot_response\<close> is the missing-fields message. (The
  six fields are read in the returned record: the check comes after the Router has stored
  the values extracted from this reply, and nothing after the check changes them.)

  Within the Router this is the only path to that status: whenever the record it returns
  has \<open>processing_status = creating_campaign\<close>, either the record it received had it
  already, or the reply was such a confirmation and the six fields are non-empty. (The
  oracle's own \<open>processing_status\<close> is adopted only when it is \<open>checking_status\<close> or
  \<open>out_of_context\<close>.)

  The Router is not the only place that sets it. The CampaignCreator, the EventCreator,
  the GroupActivator and the StatusChecker copy \<open>processing_status\<close> from the oracle
  reply they receive; they return \<open>creating_campaign\<close> only when that reply carries it as
  its \<open>processing_status\<close> (for the StatusChecker, one of its two replies). The
  Completion node returns it only when the record it received had it.
\<close>

theorem router_confirmation_starts_creation:
  "(sget_d s ''user_message'' (PStr []) = PStr m
      \<and> truthy (dict_get_d res ''is_campaign_related'' (PBool True))
      \<and> parsed_of res = PDict parsed
      \<and> truthy (dict_get parsed ''user_confirms'')
    \<longrightarrow> (\<exists>s'. router_node (Replies content (Good (PDict res))) s = Inr (s', [OracleCall ''router''])
           \<and> ((truthy (sget s' ''campaign_name'') \<and> truthy (sget s' ''event_name'')
                 \<and> truthy (sget s' ''event_date'') \<and> truthy (sget s' ''timezone'')
                 \<and> truthy (sget s' ''admins'') \<and> truthy (sget s' ''context''))
                \<longrightarrow> s' ''processing_status'' = Some (PStr ''creating_campaign''))
           \<and> (\<not> (truthy (sget s' ''campaign_name'') \<and> truthy (sget s' ''event_name'')
                 \<and> truthy (sget s' ''event_date'') \<and> truthy (sget s' ''timezone'')
                 \<and> truthy (sget s' ''admins'') \<and> truthy (sget s' ''context''))
                \<longrightarrow> s' ''processing_status'' = Some (PStr ''idle'')
                  \<and> s' ''bot_response'' = Some (PStr msg_missing_fields))))
   \<and> (router_node orc s = Inr (t, log) \<and> t ''processing_status'' = Some (PStr ''creating_campaign'')
    \<longrightarrow> s ''processing_status'' = Some (PStr ''creating_campaign'')
        \<or> (\<exists>content res parsed. orc = Replies content (Good (PDict res))
             \<and> truthy (dict_get_d res ''is_campaign_related'' (PBool True))
             \<and> parsed_of res = PDict parsed \<and> truthy (dict_get parsed ''user_confirms'')
             \<and> (truthy (sget t ''campaign_name'') \<and> truthy (sget t ''event_name'')
                 \<and> truthy (sget t ''event_date'') \<and> truthy (sget t ''timezone'')
                 \<and> truthy (sget t ''admins'') \<and> truthy (sget t ''context''))))
   \<and> (fst (campaign_creator_node orc be s) ''processing_status'' = Some (PStr ''creating_campaign'')
    \<longrightarrow> reply_carries_status orc ''creating_campaign'')
   \<and> (fst (event_creator_node orc lib be s) ''processing_status'' = Some (PStr ''creating_campaign'')
    \<longrightarrow> reply_carries_status orc ''creating_campaign'')
   \<and> (fst (whatsapp_group_creator_node orc be s) ''processing_status'' = Some (PStr ''creating_campaign'')
    \<longrightarrow> reply_carries_status orc ''creating_campaign'')
   \<and> (fst (group_status_checker_node orc orc2 msg_ok be s) ''processing_status'' = Some (PStr ''creating_campaign'')
    \<longrightarrow> reply_carries_status orc ''creating_campaign'' \<or> reply_carries_status orc2 ''creating_campaign'')
   \<and> (fst (completion_node orc s) ''processing_status'' = Some (PStr ''creating_campaign'')
    \<longrightarrow> s ''processing_status'' = Some (PStr ''creating_campaign''))"
  unfolding required_data_all [symmetric]
  by (rule router_creating_campaign_paths)

theorem router_confirmation_starts_creation_witness:
  "fst (projr (router_node (Replies ''...'' (Good (PDict reply_confirms))) record_complete)) ''processing_status''
     = Some (PStr ''creating_campaign'')
   \<and> fst (projr (router_node (Replies ''...'' (Good (PDict reply_confirms))) record_no_timezone)) ''processing_status''
     = Some (PStr ''idle'')
   \<and> fst (projr (router_node (Replies ''...'' (Good (PDict reply_confirms))) record_no_timezone)) ''bot_response''
     = Some (PStr msg_missing_fields)
   \<and> fst (projr (router_node (Replies ''...'' (Good (PDict reply_confirms))) record_no_context)) ''processing_status''
     = Some (PStr ''idle'')"
proof -
  let ?orc = "Replies ''...'' (Good (PDict reply_confirms))"
  let ?p = "[(''user_confirms'', PBool True)]"
  have h: "truthy (dict_get_d reply_confirms ''is_campaign_related'' (PBool True))"
      "parsed_of reply_confirms = PDict ?p"
      "truthy (dict_get ?p ''user_confirms'')"
    by (simp_all add: reply_confirms_def dict_get_d_def dict_get_def parsed_of_def)
  have u: "sget_d record_complete ''user_message'' (PStr []) = PStr ''dale, adelante''"
    "sget_d record_no_timezone ''user_message'' (PStr []) = PStr ''dale, adelante''"
    "sget_d record_no_context ''user_message'' (PStr []) = PStr ''dale, adelante''"
    by (simp_all add: record_complete_def record_no_timezone_def record_no_context_def sget_d_def)
  have p1: "sget_d record_complete ''user_message'' (PStr []) = PStr ''dale, adelante''
      \<and> truthy (dict_get_d reply_confirms ''is_campaign_related'' (PBool True))
      \<and> parsed_of reply_confirms = PDict ?p \<and> truthy (dict_get ?p ''user_confirms'')"
    by (intro conjI u(1) h)
  have p2: "sget_d record_no_timezone ''user_message'' (PStr []) = PStr ''dale, adelante''
      \<and> truthy (dict_get_d reply_confirms ''is_campaign_related'' (PBool True))
      \<and> parsed_of reply_confirms = PDict ?p \<and> truthy (dict_get ?p ''user_confirms'')"
    by (intro conjI u(2) h)
  have p3: "sget_d record_no_context ''user_message'' (PStr []) = PStr ''dale, adelante''
      \<and> truthy (dict_get_d reply_confirms ''is_campaign_related'' (PBool True))
      \<and> parsed_of reply_confirms = PDict ?p \<and> truthy (dict_get ?p ''user_confirms'')"
    by (intro conjI u(3) h)
  note t1 = router_confirmation_starts_creation
              [of record_complete "''dale, adelante''" reply_confirms ?p "''...''",
               THEN conjunct1, THEN mp, OF p1, unfolded required_data_all [symmetric]]
  note t2 = router_confirmation_starts_creation
              [of record_no_timezone "''dale, adelante''" reply_confirms ?p "''...''",
               THEN conjunct1, THEN mp, OF p2, unfolded required_data_all [symmetric]]
  note t3 = router_confirmation_starts_creation
              [of record_no_context "''dale, adelante''" reply_confirms ?p "''...''",
               THEN conjunct1, THEN mp, OF p3, unfolded required_data_all [symmetric]]
  from t1 obtain s1 where r1: "router_node ?orc record_complete = Inr (s1, [OracleCall ''router''])"
    and c1: "list_all truthy (required_data s1) \<longrightarrow> s1 ''processing_status'' = Some (PStr ''creating_campaign'')"
    by blast
  from t2 obtain s2 where r2: "router_node ?orc record_no_timezone = Inr (s2, [OracleCall ''router''])"
    and c2: "\<not> list_all truthy (required_data s2) \<longrightarrow> s2 ''processing_status'' = Some (PStr ''idle'')
                  \<and> s2 ''bot_response'' = Some (PStr msg_missing_fields)"
    by blast
  from t3 obtain s3 where r3: "router_node ?orc record_no_context = Inr (s3, [OracleCall ''router''])"
    and c3: "\<not> list_all truthy (required_data s3) \<longrightarrow> s3 ''processing_status'' = Some (PStr ''idle'')
                  \<and> s3 ''bot_response'' = Some (PStr msg_missing_fields)"
    by blast
  have "list_all truthy (required_data (fst (projr (router_node ?orc record_complete))))"
    by (simp add: router_eval record_complete_def reply_confirms_def)
  then have f1: "list_all truthy (required_data s1)" by (simp add: r1)
  have "\<not> list_all truthy (required_data (fst (projr (router_node ?orc record_no_timezone))))"
    by (simp add: router_eval record_complete_def record_no_timezone_def reply_confirms_def)
  then have f2: "\<not> list_all truthy (required_data s2)" by (simp add: r2)
  have "\<not> list_all truthy (required_data (fst (projr (router_node ?orc record_no_context))))"
    by (simp add: router_eval record_complete_def record_no_context_def reply_confirms_def)
  then have f3: "\<not> list_all truthy (required_data s3)" by (simp add: r3)
  from c1 f1 c2 f2 c3 f3 show ?thesis by (simp add: r1 r2 r3)
qed

text \<open>
  C1 as stated fails in its last sentence. The StatusChecker runs on a record whose
  \<open>processing_status\<close> is \<open>completed\<close>; the oracle's first reply declines the check and
  names \<open>creating_campaign\<close> as \<open>processing_status\<close>. The node consults nothing else and
  returns a record with \<open>processing_status = creating_campaign\<close>: set outside the
  Router, with no confirmation by the user. The record keeps it into the next turn, where
  the Router, on a reply that only greets, leaves it alone, and the graph goes on to the
  CampaignCreator.
\<close>

theorem router_only_place_counterexample:
  "sget record_waiting ''processing_status'' = PStr ''completed''
   \<and> snd (group_status_checker_node (Replies ''...'' (Good (PDict reply_no_check_creating)))
            (CallFails ''not reached'') strings_only backend_up record_waiting)
      = [OracleCall ''status_decision'']
   \<and> sget (fst (group_status_checker_node (Replies ''...'' (Good (PDict reply_no_check_creating)))
            (CallFails ''not reached'') strings_only backend_up record_waiting)) ''processing_status''
      = PStr ''creating_campaign''
   \<and> sget (apply_update
              (apply_update record_waiting
                 (fst (group_status_checker_node (Replies ''...'' (Good (PDict reply_no_check_creating)))
                         (CallFails ''not reached'') strings_only backend_up record_waiting)))
              (turn_input ''hola'')) ''processing_status''
      = PStr ''creating_campaign''
   \<and> graph_next Router
        (fst (projr (router_node (Replies ''...'' (Good (PDict reply_greets)))
           (apply_update
              (apply_update record_waiting
                 (fst (group_status_checker_node (Replies ''...'' (Good (PDict reply_no_check_creating)))
                         (CallFails ''not reached'') strings_only backend_up record_waiting)))
              (turn_input ''hola''))))) = Some CampaignCreator"
proof -
  let ?r = "fst (group_status_checker_node (Replies ''...'' (Good (PDict reply_no_check_creating)))
                         (CallFails ''not reached'') strings_only backend_up record_waiting)"
  let ?s = "apply_update (apply_update record_waiting ?r) (turn_input ''hola'')"
  have a: "snd (group_status_checker_node (Replies ''...'' (Good (PDict reply_no_check_creating)))
            (CallFails ''not reached'') strings_only backend_up record_waiting)
      = [OracleCall ''status_decision'']"
    by (simp add: status_eval record_waiting_def reply_no_check_creating_def)
  have b: "?r ''processing_status'' = Some (PStr ''creating_campaign'')"
          "?r ''current_step'' = Some (PStr ''wait'')"
    by (simp_all add: status_eval record_waiting_def reply_no_check_creating_def)
  have c: "?s ''processing_status'' = Some (PStr ''creating_campaign'')"
          "?s ''current_step'' = Some (PStr ''wait'')"
          "?s ''user_message'' = Some (PStr ''hola'')"
    using b by (simp_all add: apply_update_def turn_input_def map_add_def)
  have d: "graph_next Router (fst (projr (router_node (Replies ''...'' (Good (PDict reply_greets))) ?s)))
             = Some CampaignCreator"
    using c by (simp add: router_eval reply_greets_def graph_next_def router_decision_def edge_def)
  show ?thesis using a b(1) c(1) d
    by (simp add: sget_def record_waiting_def)
qed

text \<open>
  C6, as amended. For every record whose \<open>user_message\<close> is a string the Router returns a
  record and raises nothing. When the oracle call raises, the returned record is the
  received one with only \<open>bot_response\<close> replaced by the fixed message asking to repeat;
  \<open>current_step\<close> and \<open>processing_status\<close> are left as they were. When the reply does
  not decode, the returned record has \<open>current_step = out_of_context\<close>,
  \<open>processing_status = out_of_context\<close> and the fixed apology as \<open>bot_response\<close>. When
  the reply decodes to a value that is no object, the node again replaces \<open>bot_response\<close>
  by the message asking to repeat and leaves step and status alone.
\<close>

theorem router_oracle_failure:
  assumes "sget_d s ''user_message'' (PStr []) = PStr m"
  shows "router_node (CallFails e) s =
           Inr (s(''bot_response'' \<mapsto> PStr msg_router_error), [OracleCall ''router''])
       \<and> router_node (Replies content (Bad e')) s =
           Inr (s(''messages'' \<mapsto> ai_message (PStr content) ''router'',
                  ''current_step'' \<mapsto> PStr ''out_of_context'',
                  ''bot_response'' \<mapsto> PStr msg_not_understood,
                  ''processing_status'' \<mapsto> PStr ''out_of_context''), [OracleCall ''router''])
       \<and> (type_name v \<noteq> ''dict'' \<longrightarrow>
            router_node (Replies content (Good v)) s =
              Inr (s(''messages'' \<mapsto> ai_message (PStr content) ''router'',
                     ''bot_response'' \<mapsto> PStr msg_router_error), [OracleCall ''router'']))"
  using assms
  by (cases v)
     (simp_all add: router_node_def router_try_def router_apply_def router_fallback_def
        dict_get_d_def Let_def)

theorem router_oracle_failure_witness:
  "router_node (CallFails ''timeout'') [''user_message'' \<mapsto> PStr ''hola'', ''current_step'' \<mapsto> PStr ''event_name'']
     = Inr ([''user_message'' \<mapsto> PStr ''hola'', ''current_step'' \<mapsto> PStr ''event_name'',
             ''bot_response'' \<mapsto> PStr msg_router_error], [OracleCall ''router''])
   \<and> sget (fst (projr (router_node (Replies ''not json'' (Bad ''Expecting value''))
                 [''user_message'' \<mapsto> PStr ''hola'', ''current_step'' \<mapsto> PStr ''event_name''])))
          ''bot_response'' = PStr msg_not_understood"
proof -
  have h: "sget_d [''user_message'' \<mapsto> PStr ''hola'', ''current_step'' \<mapsto> PStr ''event_name''] ''user_message'' (PStr []) = PStr ''hola''"
    by (simp add: sget_d_def)
  from router_oracle_failure [OF h, of "''timeout''" "''not json''" "''Expecting value''"]
  show ?thesis by (simp add: sget_def)
qed

text \<open>
  C6 as stated fails both ways. With \<open>processing_status = pending\<close> and
  \<open>current_step = event_name\<close> in the record: a failing oracle call leaves
  \<open>processing_status\<close> at \<open>pending\<close>, not \<open>idle\<close>; a reply that does not decode moves
  \<open>current_step\<close> to \<open>out_of_context\<close> and \<open>processing_status\<close> to \<open>out_of_context\<close>.
\<close>

theorem router_oracle_failure_counterexample:
  "sget (fst (projr (router_node (CallFails ''timeout'')
            [''user_message'' \<mapsto> PStr ''hola'', ''current_step'' \<mapsto> PStr ''event_name'',
             ''processing_status'' \<mapsto> PStr ''pending'']))) ''processing_status'' \<noteq> PStr ''idle''
   \<and> sget (fst (projr (router_node (Replies ''not json'' (Bad ''Expecting value''))
            [''user_message'' \<mapsto> PStr ''hola'', ''current_step'' \<mapsto> PStr ''event_name'',
             ''processing_status'' \<mapsto> PStr ''pending'']))) ''current_step'' \<noteq> PStr ''event_name''
   \<and> sget (fst (projr (router_node (Replies ''not json'' (Bad ''Expecting value''))
            [''user_message'' \<mapsto> PStr ''hola'', ''current_step'' \<mapsto> PStr ''event_name'',
             ''processing_status'' \<mapsto> PStr ''pending'']))) ''processing_status'' \<noteq> PStr ''idle''"
  by (simp add: router_node_def router_try_def router_apply_def router_fallback_def dict_get_d_def
      sget_def sget_d_def Let_def)

text \<open>
  C10. Let the conversation be at step \<open>admins\<close> and the user's message be non-blank and
  without any sequence of seven to fifteen digits. If the oracle's reply decodes to an
  object, is campaign-related and extracts no \<open>admins\<close>, the Router returns a record
  whose \<open>admins\<close> is the one-element list holding the whole stripped message.
\<close>

theorem router_admins_fallback_whole_message:
  assumes "sget_d s ''user_message'' (PStr []) = PStr m"
    and "sget_d s ''current_step'' (PStr ''greeting'') = PStr ''admins''"
    and "strip m \<noteq> []"
    and "\<not> has_digit_seq m"
    and "truthy (dict_get_d res ''is_campaign_related'' (PBool True))"
    and "parsed_of res = PDict parsed"
    and "\<not> truthy (dict_get parsed ''admins'')"
  shows "\<exists>s'. router_node (Replies content (Good (PDict res))) s = Inr (s', [OracleCall ''router''])
            \<and> s' ''admins'' = Some (PList [PStr (strip m)])"
proof -
  let ?rf = "router_fields (PStr ''admins'') m parsed
               (router_adopt (PStr ''admins'') res (s(''messages'' \<mapsto> ai_message (PStr content) ''router'')))"
  have "fst ?rf ''admins'' = Some (PList [PStr (strip m)])"
    using assms(3,4,7) by (intro router_fields_admins) (simp_all add: findall_phone_empty)
  moreover have "router_node (Replies content (Good (PDict res))) s =
      Inr (case ?rf of (s', raised) \<Rightarrow> if raised then s'(''bot_response'' \<mapsto> PStr msg_router_error) else s',
           [OracleCall ''router''])"
    using router_node_in_domain [OF assms(1,5,6), of content] assms(2) by simp
  ultimately show ?thesis by (cases ?rf) auto
qed

theorem router_admins_fallback_whole_message_witness:
  "strip '' Juan '' \<noteq> [] \<and> \<not> has_digit_seq '' Juan ''
   \<and> fst (projr (router_node (Replies ''{}'' (Good (PDict [])))
         [''user_message'' \<mapsto> PStr '' Juan '', ''current_step'' \<mapsto> PStr ''admins''])) ''admins''
       = Some (PList [PStr ''Juan''])"
proof -
  have h: "sget_d [''user_message'' \<mapsto> PStr '' Juan '', ''current_step'' \<mapsto> PStr ''admins''] ''user_message'' (PStr []) = PStr '' Juan ''"
    "sget_d [''user_message'' \<mapsto> PStr '' Juan '', ''current_step'' \<mapsto> PStr ''admins''] ''current_step'' (PStr ''greeting'') = PStr ''admins''"
    "strip '' Juan '' \<noteq> []"
    "\<not> has_digit_seq '' Juan ''"
    "truthy (dict_get_d [] ''is_campaign_related'' (PBool True))"
    "parsed_of [] = PDict []"
    "\<not> truthy (dict_get [] ''admins'')"
    by (simp_all add: sget_d_def strip_def py_isspace_def short_no_digit_seq dict_get_d_def dict_get_def parsed_of_def)
  from router_admins_fallback_whole_message [OF h, of "''{}''"]
  obtain s' where r: "router_node (Replies ''{}'' (Good (PDict [])))
       [''user_message'' \<mapsto> PStr '' Juan '', ''current_step'' \<mapsto> PStr ''admins''] = Inr (s', [OracleCall ''router''])"
    and a: "s' ''admins'' = Some (PList [PStr (strip '' Juan '')])"
    by blast
  have "strip '' Juan '' = ''Juan''" by (simp add: strip_def py_isspace_def)
  with r a h(3,4) show ?thesis by simp
qed

section \<open>Properties of event creation\<close>

text \<open>
  C2. Let the event date resolve to an instant in UTC that is at or before the clock's
  reading. Then \<open>create_event_for_campaign\<close> raises \<open>InvalidEventDate\<close> with the
  future-date message and has called nothing. When the date is the record's, the
  EventCreator node makes no backend call whatever the oracle answers, and leaves
  \<open>event_id\<close> as it was; when the oracle lets the creation go ahead, the node returns
  \<open>current_step = error\<close>, \<open>processing_status = error\<close> and the user-facing message of
  the exception as \<open>bot_response\<close>, and the graph's edge from the EventCreator on that
  record leads to \<open>END\<close>, not to the GroupActivator.
\<close>

theorem past_event_date_never_reaches_backend:
  assumes "resolve_event_date lib event_date = Inr d" and "wall d \<le> now_utc lib"
  shows "create_event_for_campaign lib be campaign_id name event_date administrators context tz_name
           = (Inl (InvalidEventDate ''Event date must be in the future'' msg_future_date), [])
       \<and> (event_date = DateVal (sget s ''event_date'')
            \<longrightarrow> \<not> list_ex is_backend (snd (event_creator_node orc lib be s))
              \<and> fst (event_creator_node orc lib be s) ''event_id'' = s ''event_id''
              \<and> (\<forall>content res. orc = Replies content (Good (PDict res))
                     \<and> truthy (dict_get_d res ''should_create'' (PBool True))
                   \<longrightarrow> event_creator_node orc lib be s
                         = (set_error msg_future_date (s(''messages'' \<mapsto> ai_message (PStr content) ''event_creator'')),
                            [OracleCall ''event_creator''])
                       \<and> sget (fst (event_creator_node orc lib be s)) ''current_step'' = PStr ''error''
                       \<and> sget (fst (event_creator_node orc lib be s)) ''processing_status'' = PStr ''error''
                       \<and> sget (fst (event_creator_node orc lib be s)) ''bot_response'' = PStr msg_future_date
                       \<and> graph_next EventCreator (fst (event_creator_node orc lib be s)) = None))"
proof (intro conjI impI allI)
  show "create_event_for_campaign lib be campaign_id name event_date administrators context tz_name
           = (Inl (InvalidEventDate ''Event date must be in the future'' msg_future_date), [])"
    using assms by (rule create_event_past)
next
  assume e: "event_date = DateVal (sget s ''event_date'')"
  have past: "\<And>cid nm adm ctx tz s'. sget s' ''event_date'' = sget s ''event_date'' \<Longrightarrow>
      create_event_for_campaign lib be cid nm (DateVal (sget s' ''event_date'')) adm ctx tz
           = (Inl (InvalidEventDate ''Event date must be in the future'' msg_future_date), [])"
    using assms e by (simp add: create_event_past)
  have m: "\<And>c. sget (s(''messages'' \<mapsto> c)) ''event_date'' = sget s ''event_date''"
    by (simp add: sget_def)
  show "\<not> list_ex is_backend (snd (event_creator_node orc lib be s))"
    by (simp add: event_creator_node_def Let_def past [OF m] split: reply.splits decoded.splits pyval.splits)
  show "fst (event_creator_node orc lib be s) ''event_id'' = s ''event_id''"
    by (simp add: event_creator_node_def Let_def past [OF m] set_error_def split: reply.splits decoded.splits pyval.splits)
  fix content res
  assume o: "orc = Replies content (Good (PDict res)) \<and> truthy (dict_get_d res ''should_create'' (PBool True))"
  then show n: "event_creator_node orc lib be s
                         = (set_error msg_future_date (s(''messages'' \<mapsto> ai_message (PStr content) ''event_creator'')),
                            [OracleCall ''event_creator''])"
    by (simp add: event_creator_node_def Let_def past [OF m])
  show "sget (fst (event_creator_node orc lib be s)) ''current_step'' = PStr ''error''"
    "sget (fst (event_creator_node orc lib be s)) ''processing_status'' = PStr ''error''"
    "sget (fst (event_creator_node orc lib be s)) ''bot_response'' = PStr msg_future_date"
    by (simp_all add: n set_error_def sget_def)
  show "graph_next EventCreator (fst (event_creator_node orc lib be s)) = None"
    by (rule event_creator_decision_error) (simp add: n set_error_def sget_d_def)
qed


theorem past_event_date_never_reaches_backend_witness:
  "resolve_event_date lib_2026 (DateVal (PStr ''2000-01-01'')) = Inr \<lparr>wall = 63082281600000000, tzoff = Some 0\<rparr>
   \<and> wall \<lparr>wall = 63082281600000000, tzoff = Some 0\<rparr> \<le> now_utc lib_2026
   \<and> create_event_for_campaign lib_2026 backend_up (PStr ''c1'') (PStr ''Lanzamiento'')
        (DateVal (PStr ''2000-01-01'')) (PList [PStr ''573103435489'']) PNone (PStr ''America/Bogota'')
       = (Inl (InvalidEventDate ''Event date must be in the future'' msg_future_date), [])
   \<and> snd (event_creator_node (Replies ''{}'' (Good (PDict []))) lib_2026 backend_up record_creating_event)
       = [OracleCall ''event_creator'']
   \<and> sget (fst (event_creator_node (Replies ''{}'' (Good (PDict []))) lib_2026 backend_up record_creating_event))
        ''current_step'' = PStr ''error''
   \<and> sget (fst (event_creator_node (Replies ''{}'' (Good (PDict []))) lib_2026 backend_up record_creating_event))
        ''processing_status'' = PStr ''error''
   \<and> fst (event_creator_node (Replies ''{}'' (Good (PDict []))) lib_2026 backend_up record_creating_event)
        ''event_id'' = None
   \<and> graph_next EventCreator
        (fst (event_creator_node (Replies ''{}'' (Good (PDict []))) lib_2026 backend_up record_creating_event)) = None"
proof -
  have d: "sget record_creating_event ''event_date'' = PStr ''2000-01-01''"
    by (simp add: record_creating_event_def sget_def)
  have h: "resolve_event_date lib_2026 (DateVal (PStr ''2000-01-01'')) = Inr \<lparr>wall = 63082281600000000, tzoff = Some 0\<rparr>"
    "wall \<lparr>wall = 63082281600000000, tzoff = Some 0\<rparr> \<le> now_utc lib_2026"
    by (simp_all add: service_eval)
  have o: "truthy (dict_get_d [] ''should_create'' (PBool True))"
    by (simp add: dict_get_d_def)
  have e: "record_creating_event ''event_id'' = None"
    by (simp add: record_creating_event_def record_complete_def)
  from past_event_date_never_reaches_backend
         [OF h, of backend_up "PStr ''c1''" "PStr ''Lanzamiento''" "PList [PStr ''573103435489'']" PNone
            "PStr ''America/Bogota''" record_creating_event "Replies ''{}'' (Good (PDict []))"]
       d h o e
  show ?thesis
    by (simp add: set_error_def sget_def sget_d_def graph_next_def event_creator_decision_def edge_def)
qed

text \<open>
  C8. When the date string parses (by \<open>fromisoformat\<close> or by one of the four fallback
  formats) to a \<open>datetime\<close> without offset, \<open>create_event_for_campaign\<close> reads its clock
  fields as UTC: it compares that reading with the clock, and on a future date hands the
  backend that reading with \<open>tzinfo = UTC\<close>. The \<open>tz_name\<close> argument appears in the result
  only as the \<open>timezone\<close> field of the input sent to the backend.
\<close>

theorem naive_event_date_read_as_utc:
  assumes "parse_event_date lib str = Some d" and "tzoff d = None"
  shows "create_event_for_campaign lib be campaign_id name (DateVal (PStr str)) administrators context tz_name =
     (if wall d \<le> now_utc lib
      then (Inl (InvalidEventDate ''Event date must be in the future'' msg_future_date), [])
      else (case create_event be
                   \<lparr>ei_name = name, ei_campaign_id = campaign_id,
                    ei_event_date = \<lparr>wall = wall d, tzoff = Some 0\<rparr>,
                    ei_administrators = administrators, ei_context = context,
                    ei_timezone = tz_name, ei_image_url = default_image_url\<rparr> of
              Inl e \<Rightarrow> Inl (OtherException e)
            | Inr r \<Rightarrow> Inr r,
            [CreateEvent
               \<lparr>ei_name = name, ei_campaign_id = campaign_id,
                ei_event_date = \<lparr>wall = wall d, tzoff = Some 0\<rparr>,
                ei_administrators = administrators, ei_context = context,
                ei_timezone = tz_name, ei_image_url = default_image_url\<rparr>]))"
  using assms
  by (cases d) (simp add: create_event_for_campaign_def resolve_event_date_def to_utc_def Let_def)

theorem naive_event_date_read_as_utc_witness:
  "parse_event_date lib_2026 ''2030-01-01'' = Some \<lparr>wall = 64029052800000000, tzoff = None\<rparr>
   \<and> create_event_for_campaign lib_2026 backend_up (PStr ''c1'') (PStr ''Lanzamiento'')
        (DateVal (PStr ''2030-01-01'')) (PList [PStr ''573103435489'']) PNone (PStr ''Asia/Tokyo'')
     = (Inr (Some \<lparr>ev_id = Some ''e1''\<rparr>),
        [CreateEvent \<lparr>ei_name = PStr ''Lanzamiento'', ei_campaign_id = PStr ''c1'',
                ei_event_date = \<lparr>wall = 64029052800000000, tzoff = Some 0\<rparr>,
                ei_administrators = PList [PStr ''573103435489''], ei_context = PNone,
                ei_timezone = PStr ''Asia/Tokyo'', ei_image_url = default_image_url\<rparr>])"
proof -
  have h: "parse_event_date lib_2026 ''2030-01-01'' = Some \<lparr>wall = 64029052800000000, tzoff = None\<rparr>"
    "tzoff \<lparr>wall = 64029052800000000, tzoff = None\<rparr> = None"
    by (simp_all add: parse_event_date_def lib_2026_def)
  from naive_event_date_read_as_utc
         [OF h, of backend_up "PStr ''c1''" "PStr ''Lanzamiento''" "PList [PStr ''573103435489'']" PNone "PStr ''Asia/Tokyo''"]
       h(1)
  show ?thesis by (simp add: lib_2026_def backend_up_def)
qed


section \<open>Properties of the GroupActivator node\<close>

text \<open>
  C3. Whenever the record's \<open>processing_status\<close> is not \<open>creating_group\<close>, or its
  \<open>event_id\<close> is empty (\<open>None\<close> or the empty string), the GroupActivator node returns the
  record with \<open>current_step = error\<close> and \<open>processing_status = error\<close> and has made no
  call at all: neither to the backend (no \<open>activate_event\<close>) nor to the oracle. This holds for
  every oracle reply and every backend, so the outcome does not depend on them.
\<close>

theorem whatsapp_guard_short_circuits:
  assumes "sget s ''processing_status'' \<noteq> PStr ''creating_group'' \<or> \<not> truthy (sget s ''event_id'')"
  shows "snd (whatsapp_group_creator_node orc be s) = []
       \<and> sget (fst (whatsapp_group_creator_node orc be s)) ''current_step'' = PStr ''error''
       \<and> sget (fst (whatsapp_group_creator_node orc be s)) ''processing_status'' = PStr ''error''
       \<and> fst (whatsapp_group_creator_node orc be s) = set_error msg_no_valid_event s"
  using assms by (auto simp: whatsapp_group_creator_node_def set_error_def sget_def)

theorem whatsapp_guard_short_circuits_witness:
  "sget [''processing_status'' \<mapsto> PStr ''idle'', ''event_id'' \<mapsto> PStr ''e1''] ''processing_status'' \<noteq> PStr ''creating_group''
   \<and> snd (whatsapp_group_creator_node (Replies ''{}'' (Good (PDict []))) backend_up
          [''processing_status'' \<mapsto> PStr ''idle'', ''event_id'' \<mapsto> PStr ''e1'']) = []
   \<and> sget (fst (whatsapp_group_creator_node (Replies ''{}'' (Good (PDict []))) backend_up
          [''processing_status'' \<mapsto> PStr ''idle'', ''event_id'' \<mapsto> PStr ''e1''])) ''current_step'' = PStr ''error''
   \<and> sget (fst (whatsapp_group_creator_node (Replies ''{}'' (Good (PDict []))) backend_up
          [''processing_status'' \<mapsto> PStr ''idle'', ''event_id'' \<mapsto> PStr ''e1''])) ''processing_status'' = PStr ''error''"
proof -
  have h: "sget [''processing_status'' \<mapsto> PStr ''idle'', ''event_id'' \<mapsto> PStr ''e1''] ''processing_status'' \<noteq> PStr ''creating_group''"
    by (simp add: sget_def)
  then have "sget [''processing_status'' \<mapsto> PStr ''idle'', ''event_id'' \<mapsto> PStr ''e1''] ''processing_status'' \<noteq> PStr ''creating_group''
      \<or> \<not> truthy (sget [''processing_status'' \<mapsto> PStr ''idle'', ''event_id'' \<mapsto> PStr ''e1''] ''event_id'')"
    by (rule disjI1)
  from whatsapp_guard_short_circuits [OF this, of "Replies ''{}'' (Good (PDict []))" backend_up] h
  show ?thesis by (simp add: set_error_def sget_def)
qed

text \<open>
  C7, as amended. Let the record pass the guard (\<open>processing_status = creating_group\<close>,
  \<open>event_id\<close> non-empty) and let the oracle not veto: its reply decodes to an object
  whose \<open>should_activate\<close> is true or missing, or does not decode at all. Then the node
  calls \<open>activate_event\<close> once. If the call returns, \<open>pending_event_id\<close> is \<open>event_id\<close>
  in the returned record. If the call raises, \<open>pending_event_id\<close> is what it was in the
  received record, and the node returns \<open>current_step = error\<close>,
  \<open>processing_status = error\<close>.
\<close>

theorem activation_records_pending_event_id:
  assumes "sget s ''processing_status'' = PStr ''creating_group''"
    and "truthy (sget s ''event_id'')"
    and "(case d of Good v \<Rightarrow> v | Bad e \<Rightarrow> PDict whatsapp_fallback) = PDict res"
    and "truthy (dict_get_d res ''should_activate'' (PBool True))"
  shows "snd (whatsapp_group_creator_node (Replies content d) be s)
           = [OracleCall ''whatsapp_group_creator'', ActivateEvent (sget s ''event_id'')]
       \<and> (case update_event_status be (sget s ''event_id'') ''scheduled'' of
             Inr response \<Rightarrow>
               fst (whatsapp_group_creator_node (Replies content d) be s) ''pending_event_id''
                 = Some (sget s ''event_id'')
           | Inl e \<Rightarrow>
               fst (whatsapp_group_creator_node (Replies content d) be s) ''pending_event_id''
                 = s ''pending_event_id''
               \<and> sget (fst (whatsapp_group_creator_node (Replies content d) be s)) ''current_step'' = PStr ''error''
               \<and> sget (fst (whatsapp_group_creator_node (Replies content d) be s)) ''processing_status'' = PStr ''error'')"
  using assms
  by (simp add: whatsapp_group_creator_node_def activate_event_def set_error_def sget_def Let_def
      split: sum.splits)

theorem activation_records_pending_event_id_witness:
  "fst (whatsapp_group_creator_node (Replies ''{}'' (Good (PDict []))) backend_up
          [''processing_status'' \<mapsto> PStr ''creating_group'', ''event_id'' \<mapsto> PStr ''e1''])
       ''pending_event_id'' = Some (PStr ''e1'')
   \<and> fst (whatsapp_group_creator_node (Replies ''{}'' (Good (PDict []))) backend_down
          [''processing_status'' \<mapsto> PStr ''creating_group'', ''event_id'' \<mapsto> PStr ''e1''])
       ''pending_event_id'' = None"
proof -
  let ?s = "[''processing_status'' \<mapsto> PStr ''creating_group'', ''event_id'' \<mapsto> PStr ''e1'']"
  have h: "sget ?s ''processing_status'' = PStr ''creating_group''"
    "truthy (sget ?s ''event_id'')"
    "(case Good (PDict []) of Good v \<Rightarrow> v | Bad e \<Rightarrow> PDict whatsapp_fallback) = PDict []"
    "truthy (dict_get_d [] ''should_activate'' (PBool True))"
    by (simp_all add: sget_def dict_get_d_def)
  from activation_records_pending_event_id [OF h, of "''{}''" backend_up]
       activation_records_pending_event_id [OF h, of "''{}''" backend_down]
  show ?thesis by (simp add: backend_up_def backend_down_def sget_def)
qed

text \<open>
  C7 as stated fails when the backend call fails: the record passes the guard, the oracle
  does not veto, \<open>activate_event\<close> is called and raises, and the returned record holds no
  \<open>pending_event_id\<close>.
\<close>

theorem activation_failure_counterexample:
  "snd (whatsapp_group_creator_node (Replies ''{}'' (Good (PDict []))) backend_down
          [''processing_status'' \<mapsto> PStr ''creating_group'', ''event_id'' \<mapsto> PStr ''e1''])
     = [OracleCall ''whatsapp_group_creator'', ActivateEvent (PStr ''e1'')]
   \<and> sget (fst (whatsapp_group_creator_node (Replies ''{}'' (Good (PDict []))) backend_down
          [''processing_status'' \<mapsto> PStr ''creating_group'', ''event_id'' \<mapsto> PStr ''e1'']))
        ''pending_event_id'' \<noteq> PStr ''e1''"
  by (simp add: whatsapp_eval backend_down_def)

section \<open>Properties of the StatusChecker node\<close>

text \<open>
  C4, as amended. Let the StatusChecker query the backend: the first oracle reply is an
  object that does not forbid the check, and an event id is at hand. Then the node asks
  the oracle, the backend and the oracle again, in this order, and:
  \<^item> a result with a non-empty link stores that link as \<open>whatsapp_group_url\<close>, whatever
    the oracle says;
  \<^item> when the second reply decodes to an object whose \<open>bot_response\<close> is a string or
    absent, \<open>current_step\<close> and \<open>processing_status\<close> are the reply's, \<open>wait\<close> and
    \<open>pending\<close> where it has none;
  \<^item> when the second reply decodes to an object whose \<open>bot_response\<close> is \<open>null\<close>,
    \<open>error\<close> / \<open>error\<close>; with any other \<open>bot_response\<close>, the reply's values if the message
    constructor accepts it as content and \<open>error\<close> / \<open>error\<close> if not;
  \<^item> when the second reply decodes to a value that is no object, \<open>error\<close> / \<open>error\<close>;
  \<^item> when the second reply does not decode, the outcome decides: link present gives
    \<open>completed\<close> / \<open>completed\<close>, found without link \<open>wait\<close> / \<open>pending\<close>, not found
    \<open>error\<close> / \<open>error\<close>, a backend exception \<open>error\<close> / \<open>error\<close>;
  \<^item> when the second oracle call raises, \<open>error\<close> / \<open>error\<close>.
\<close>

theorem status_outcome_mapping:
  assumes "should_check_status orc1 = PDict decision"
    and "truthy (dict_get_d decision ''should_check'' (PBool True))"
    and "eid = (if truthy (sget s ''event_id'') then sget s ''event_id'' else sget s ''pending_event_id'')"
    and "truthy eid"
  shows
    "snd (group_status_checker_node orc1 orc2 msg_ok be s)
       = [OracleCall ''status_decision'', GetGroupStatus eid, OracleCall ''status_response'']
     \<and> (\<forall>g l. get_group_by_id be eid = Inr (Some g) \<and> mg_link g = Some l \<and> l \<noteq> []
           \<longrightarrow> fst (group_status_checker_node orc1 orc2 msg_ok be s) ''whatsapp_group_url'' = Some (PStr l))
     \<and> (\<forall>content rd. orc2 = Replies content (Good (PDict rd))
             \<and> type_name (dict_get_d rd ''bot_response'' (PStr ''Estado consultado.'')) = ''str''
           \<longrightarrow> sget (fst (group_status_checker_node orc1 orc2 msg_ok be s)) ''current_step''
                 = dict_get_d rd ''current_step'' (PStr ''wait'')
             \<and> sget (fst (group_status_checker_node orc1 orc2 msg_ok be s)) ''processing_status''
                 = dict_get_d rd ''processing_status'' (PStr ''pending''))
     \<and> (\<forall>content rd. orc2 = Replies content (Good (PDict rd))
             \<and> map_of rd ''bot_response'' = Some PNone
           \<longrightarrow> sget (fst (group_status_checker_node orc1 orc2 msg_ok be s)) ''current_step'' = PStr ''error''
             \<and> sget (fst (group_status_checker_node orc1 orc2 msg_ok be s)) ''processing_status'' = PStr ''error'')
     \<and> (\<forall>content rd. orc2 = Replies content (Good (PDict rd))
           \<longrightarrow> (sget (fst (group_status_checker_node orc1 orc2 msg_ok be s)) ''current_step'',
                sget (fst (group_status_checker_node orc1 orc2 msg_ok be s)) ''processing_status'')
               = (if accepts_content msg_ok (dict_get_d rd ''bot_response'' (PStr ''Estado consultado.''))
                  then (dict_get_d rd ''current_step'' (PStr ''wait''),
                        dict_get_d rd ''processing_status'' (PStr ''pending''))
                  else (PStr ''error'', PStr ''error'')))
     \<and> (\<forall>content v. orc2 = Replies content (Good v) \<and> type_name v \<noteq> ''dict''
           \<longrightarrow> sget (fst (group_status_checker_node orc1 orc2 msg_ok be s)) ''current_step'' = PStr ''error''
             \<and> sget (fst (group_status_checker_node orc1 orc2 msg_ok be s)) ''processing_status'' = PStr ''error'')
     \<and> (\<forall>content e. orc2 = Replies content (Bad e)
           \<longrightarrow> (sget (fst (group_status_checker_node orc1 orc2 msg_ok be s)) ''current_step'',
                sget (fst (group_status_checker_node orc1 orc2 msg_ok be s)) ''processing_status'')
               = (case get_group_by_id be eid of
                    Inr (Some g) \<Rightarrow>
                      if mg_link g = None \<or> mg_link g = Some []
                      then (PStr ''wait'', PStr ''pending'')
                      else (PStr ''completed'', PStr ''completed'')
                  | Inr None \<Rightarrow> (PStr ''error'', PStr ''error'')
                  | Inl x \<Rightarrow> (PStr ''error'', PStr ''error'')))
     \<and> (\<forall>e. orc2 = CallFails e
           \<longrightarrow> sget (fst (group_status_checker_node orc1 orc2 msg_ok be s)) ''current_step'' = PStr ''error''
             \<and> sget (fst (group_status_checker_node orc1 orc2 msg_ok be s)) ''processing_status'' = PStr ''error'')"
proof -
  obtain status_result group_link error_message calls
    where g: "node_get_group_status be eid = ((status_result, group_link, error_message), calls)"
    by (metis prod.exhaust)
  note n = status_node_checked [OF assms g]
  have calls: "calls = [GetGroupStatus eid]"
    using g by (auto simp: node_get_group_status_cases split: sum.splits option.splits if_splits)
  have 1: "snd (group_status_checker_node orc1 orc2 msg_ok be s)
       = [OracleCall ''status_decision'', GetGroupStatus eid, OracleCall ''status_response'']"
    by (simp add: n calls)
  have 2: "fst (group_status_checker_node orc1 orc2 msg_ok be s) ''whatsapp_group_url'' = Some (PStr l)"
    if "get_group_by_id be eid = Inr (Some g')" "mg_link g' = Some l" "l \<noteq> []" for g' l
  proof -
    from that g have "status_result = ''ready''" "group_link = l"
      by (simp_all add: node_get_group_status_cases)
    then show ?thesis
      by (simp add: n status_finish_url status_failed_fields(3) split: pyval.splits)
  qed
  have 3: "(sget (fst (group_status_checker_node orc1 orc2 msg_ok be s)) ''current_step'',
                sget (fst (group_status_checker_node orc1 orc2 msg_ok be s)) ''processing_status'')
               = (if accepts_content msg_ok (dict_get_d rd ''bot_response'' (PStr ''Estado consultado.''))
                  then (dict_get_d rd ''current_step'' (PStr ''wait''),
                        dict_get_d rd ''processing_status'' (PStr ''pending''))
                  else (PStr ''error'', PStr ''error''))"
    if "orc2 = Replies content (Good (PDict rd))" for content rd
    using that
    by (simp add: n generate_status_response_def parse_llm_response_def status_finish_def
        status_failed_def set_error_def sget_def)
  have str3: "sget (fst (group_status_checker_node orc1 orc2 msg_ok be s)) ''current_step''
                 = dict_get_d rd ''current_step'' (PStr ''wait'')
             \<and> sget (fst (group_status_checker_node orc1 orc2 msg_ok be s)) ''processing_status''
                 = dict_get_d rd ''processing_status'' (PStr ''pending'')"
    if "orc2 = Replies content (Good (PDict rd))"
       "type_name (dict_get_d rd ''bot_response'' (PStr ''Estado consultado.'')) = ''str''" for content rd
  proof -
    from that(2) have "accepts_content msg_ok (dict_get_d rd ''bot_response'' (PStr ''Estado consultado.''))"
      by (cases "dict_get_d rd ''bot_response'' (PStr ''Estado consultado.'')")
         (simp_all add: accepts_content_def)
    with 3 [OF that(1)] show ?thesis by simp
  qed
  have null3: "sget (fst (group_status_checker_node orc1 orc2 msg_ok be s)) ''current_step'' = PStr ''error''
             \<and> sget (fst (group_status_checker_node orc1 orc2 msg_ok be s)) ''processing_status'' = PStr ''error''"
    if "orc2 = Replies content (Good (PDict rd))" "map_of rd ''bot_response'' = Some PNone" for content rd
  proof -
    from that(2) have "\<not> accepts_content msg_ok (dict_get_d rd ''bot_response'' (PStr ''Estado consultado.''))"
      by (simp add: accepts_content_def dict_get_d_def)
    with 3 [OF that(1)] show ?thesis by simp
  qed
  have 4: "(sget (fst (group_status_checker_node orc1 orc2 msg_ok be s)) ''current_step'',
                sget (fst (group_status_checker_node orc1 orc2 msg_ok be s)) ''processing_status'')
               = (case get_group_by_id be eid of
                    Inr (Some g) \<Rightarrow>
                      if mg_link g = None \<or> mg_link g = Some []
                      then (PStr ''wait'', PStr ''pending'')
                      else (PStr ''completed'', PStr ''completed'')
                  | Inr None \<Rightarrow> (PStr ''error'', PStr ''error'')
                  | Inl x \<Rightarrow> (PStr ''error'', PStr ''error''))"
    if "orc2 = Replies content (Bad e)" for content e
    using that g
    by (auto simp: n node_get_group_status_cases generate_status_response_def parse_llm_response_def
        fallback_responses_def status_finish_def accepts_content_def dict_get_d_def sget_def
        split: sum.splits option.splits if_splits)
  have 5: "sget (fst (group_status_checker_node orc1 orc2 msg_ok be s)) ''current_step'' = PStr ''error''
             \<and> sget (fst (group_status_checker_node orc1 orc2 msg_ok be s)) ''processing_status'' = PStr ''error''"
    if "orc2 = CallFails e" for e
    using that
    by (simp add: n generate_status_response_def status_finish_def accepts_content_def dict_get_d_def sget_def)
  have 6: "sget (fst (group_status_checker_node orc1 orc2 msg_ok be s)) ''current_step'' = PStr ''error''
             \<and> sget (fst (group_status_checker_node orc1 orc2 msg_ok be s)) ''processing_status'' = PStr ''error''"
    if "orc2 = Replies content (Good v)" "type_name v \<noteq> ''dict''" for content v
    using that
    by (cases v)
       (simp_all add: n generate_status_response_def parse_llm_response_def status_failed_fields)
  show ?thesis
    apply (intro conjI)
    subgoal by (rule 1)
    subgoal using 2 by blast
    subgoal using str3 by blast
    subgoal using null3 by blast
    subgoal using 3 by blast
    subgoal using 6 by blast
    subgoal using 4 by blast
    subgoal using 5 by blast
    done
qed

theorem status_outcome_mapping_witness:
  "fst (group_status_checker_node (Replies ''{}'' (Good (PDict []))) (Replies ''?'' (Bad ''Expecting value''))
          strings_only backend_up record_waiting) ''whatsapp_group_url''
     = Some (PStr ''https://chat.whatsapp.com/abc'')
   \<and> sget (fst (group_status_checker_node (Replies ''{}'' (Good (PDict []))) (Replies ''?'' (Bad ''Expecting value''))
          strings_only backend_up record_waiting)) ''current_step'' = PStr ''completed''
   \<and> sget (fst (group_status_checker_node (Replies ''{}'' (Good (PDict []))) (Replies ''?'' (Bad ''Expecting value''))
          strings_only backend_up record_waiting)) ''processing_status'' = PStr ''completed''
   \<and> sget (fst (group_status_checker_node (Replies ''{}'' (Good (PDict []))) (Replies ''...'' (Good (PDict reply_still_pending)))
          strings_only backend_up record_waiting)) ''current_step'' = PStr ''wait''
   \<and> sget (fst (group_status_checker_node (Replies ''{}'' (Good (PDict []))) (Replies ''...'' (Good (PDict reply_null_response)))
          strings_only backend_up record_waiting)) ''current_step'' = PStr ''error''
   \<and> sget (fst (group_status_checker_node (Replies ''{}'' (Good (PDict []))) (Replies ''[]'' (Good (PList [])))
          strings_only backend_up record_waiting)) ''current_step'' = PStr ''error''
   \<and> sget (fst (group_status_checker_node (Replies ''{}'' (Good (PDict []))) (CallFails ''timeout'')
          strings_only backend_up record_waiting)) ''current_step'' = PStr ''error''"
proof -
  have h: "should_check_status (Replies ''{}'' (Good (PDict []))) = PDict []"
    "truthy (dict_get_d [] ''should_check'' (PBool True))"
    "PStr ''e1'' = (if truthy (sget record_waiting ''event_id'') then sget record_waiting ''event_id''
                    else sget record_waiting ''pending_event_id'')"
    "truthy (PStr ''e1'')"
    by (simp_all add: should_check_status_def parse_llm_response_def dict_get_d_def record_waiting_def sget_def)
  have b: "get_group_by_id backend_up (PStr ''e1'') = Inr (Some \<lparr>mg_link = Some ''https://chat.whatsapp.com/abc''\<rparr>)"
    by (simp add: backend_up_def)
  have a: "type_name (dict_get_d reply_still_pending ''bot_response'' (PStr ''Estado consultado.'')) = ''str''"
    "dict_get_d reply_still_pending ''current_step'' (PStr ''wait'') = PStr ''wait''"
    "map_of reply_null_response ''bot_response'' = Some PNone"
    "type_name (PList []) \<noteq> ''dict''"
    by (simp_all add: reply_still_pending_def reply_null_response_def dict_get_d_def)
  from status_outcome_mapping [OF h, of "Replies ''?'' (Bad ''Expecting value'')" strings_only backend_up]
       status_outcome_mapping [OF h, of "Replies ''...'' (Good (PDict reply_still_pending))" strings_only backend_up]
       status_outcome_mapping [OF h, of "Replies ''...'' (Good (PDict reply_null_response))" strings_only backend_up]
       status_outcome_mapping [OF h, of "Replies ''[]'' (Good (PList []))" strings_only backend_up]
       status_outcome_mapping [OF h, of "CallFails ''timeout''" strings_only backend_up]
       b a
  show ?thesis by simp
qed

text \<open>
  C4 as stated fails: the backend returns a group with a link, the second oracle reply
  says \<open>wait\<close> / \<open>pending\<close>, and the node returns the link together with
  \<open>current_step = wait\<close> and \<open>processing_status = pending\<close>.
\<close>

theorem status_outcome_mapping_counterexample:
  "fst (group_status_checker_node (Replies ''{}'' (Good (PDict []))) (Replies ''...'' (Good (PDict reply_still_pending)))
          strings_only backend_up record_waiting) ''whatsapp_group_url''
     = Some (PStr ''https://chat.whatsapp.com/abc'')
   \<and> sget (fst (group_status_checker_node (Replies ''{}'' (Good (PDict []))) (Replies ''...'' (Good (PDict reply_still_pending)))
          strings_only backend_up record_waiting)) ''current_step'' \<noteq> PStr ''completed''
   \<and> sget (fst (group_status_checker_node (Replies ''{}'' (Good (PDict []))) (Replies ''...'' (Good (PDict reply_still_pending)))
          strings_only backend_up record_waiting)) ''processing_status'' \<noteq> PStr ''completed''"
  by (simp add: status_eval backend_up_def record_waiting_def reply_still_pending_def)

section \<open>Properties of the Completion node\<close>

text \<open>
  C5, evaluated on the record of a finished campaign when the oracle answers
  \<open>new_campaign\<close>. The node returns the dictionary literal of the reset. Eight of the ten
  fields named by the claim are in it with value \<open>None\<close>, and \<open>current_step\<close> is
  \<open>campaign_name\<close>; \<open>timezone\<close> and \<open>pending_event_id\<close> are not among its keys. Taken
  over the session's record key by key, the reset therefore leaves the old \<open>timezone\<close>
  and \<open>pending_event_id\<close> in place, while \<open>campaign_name\<close> and its like become \<open>None\<close>.
\<close>

theorem completion_reset_leaves_timezone:
  "fst (completion_node (Replies ''...'' (Good (PDict [(''action'', PStr ''new_campaign'')]))) record_completed)
     = new_state
   \<and> map new_state [''campaign_name'', ''event_name'', ''event_date'', ''admins'', ''context'',
                     ''campaign_id'', ''event_id'', ''whatsapp_group_url'']
       = replicate 8 (Some PNone)
   \<and> new_state ''current_step'' = Some (PStr ''campaign_name'')
   \<and> new_state ''timezone'' = None
   \<and> new_state ''pending_event_id'' = None
   \<and> apply_update record_completed
        (fst (completion_node (Replies ''...'' (Good (PDict [(''action'', PStr ''new_campaign'')]))) record_completed))
        ''timezone'' = Some (PStr ''America/Bogota'')
   \<and> apply_update record_completed
        (fst (completion_node (Replies ''...'' (Good (PDict [(''action'', PStr ''new_campaign'')]))) record_completed))
        ''pending_event_id'' = Some (PStr ''e1'')
   \<and> apply_update record_completed
        (fst (completion_node (Replies ''...'' (Good (PDict [(''action'', PStr ''new_campaign'')]))) record_completed))
        ''campaign_name'' = Some PNone"
  by (simp add: completion_node_def dict_get_def new_state_def new_state_items_def apply_update_def
      record_completed_def record_complete_def map_add_def numeral_eq_Suc)

section \<open>Properties of the entry point\<close>

text \<open>
  C9, as amended. When the graph execution returns, \<open>process_message\<close> returns its
  result. When it raises an instance of \<open>Exception\<close> with text \<open>e\<close>, \<open>process_message\<close>
  raises nothing and returns a dictionary whose \<open>bot_response\<close> is a fixed error prefix
  followed by \<open>e\<close>, hence not empty, with \<open>current_step = error\<close> and
  \<open>processing_status = error\<close>. When it raises an exception that is no instance of
  \<open>Exception\<close>, that exception reaches the caller.
\<close>

theorem process_message_catches_exceptions:
  "(ainvoke (turn_input user_message) user_id = GraphReturns result
      \<longrightarrow> process_message ainvoke user_message user_id = Inr result)
   \<and> (ainvoke (turn_input user_message) user_id = GraphRaises (ExceptionInstance e)
      \<longrightarrow> process_message ainvoke user_message user_id
            = Inr [''bot_response'' \<mapsto> PStr (''? Error: '' @ e),
                   ''current_step'' \<mapsto> PStr ''error'',
                   ''processing_status'' \<mapsto> PStr ''error'']
        \<and> sget (projr (process_message ainvoke user_message user_id)) ''bot_response''
            = PStr (''? Error: '' @ e)
        \<and> ''? Error: '' @ e \<noteq> []
        \<and> sget (projr (process_message ainvoke user_message user_id)) ''current_step'' = PStr ''error''
        \<and> sget (projr (process_message ainvoke user_message user_id)) ''processing_status'' = PStr ''error'')
   \<and> (ainvoke (turn_input user_message) user_id = GraphRaises (BaseExceptionOnly e)
      \<longrightarrow> process_message ainvoke user_message user_id = Inl (BaseExceptionOnly e))"
  by (simp add: process_message_def sget_def)

theorem process_message_catches_exceptions_witness:
  "process_message engine_greets ''hola'' ''u1''
     = Inr ((turn_input ''hola'')(''current_step'' \<mapsto> PStr ''greeting'',
                                  ''bot_response'' \<mapsto> PStr ''Hola, en que te ayudo?''))
   \<and> sget (projr (process_message engine_times_out ''hola'' ''u1'')) ''bot_response''
       = PStr ''? Error: Request timed out.''
   \<and> sget (projr (process_message engine_times_out ''hola'' ''u1'')) ''current_step'' = PStr ''error''
   \<and> sget (projr (process_message engine_times_out ''hola'' ''u1'')) ''processing_status'' = PStr ''error''"
  using process_message_catches_exceptions
          [of engine_greets "''hola''" "''u1''"
              "(turn_input ''hola'')(''current_step'' \<mapsto> PStr ''greeting'',
                                     ''bot_response'' \<mapsto> PStr ''Hola, en que te ayudo?'')"
              "''Request timed out.''"]
        process_message_catches_exceptions
          [of engine_times_out "''hola''" "''u1''" "Map.empty" "''Request timed out.''"]
  by (simp add: engine_greets_def engine_times_out_def sget_def)

text \<open>
  C9 as stated fails: when the task is cancelled while it awaits the graph,
  \<open>CancelledError\<close> is raised at the \<open>await\<close>, the \<open>except Exception\<close> clause does not
  catch it, and \<open>process_message\<close> raises to its caller instead of returning a
  dictionary.
\<close>

theorem process_message_cancelled_counterexample:
  "isl (process_message engine_cancelled ''hola'' ''u1'')
   \<and> process_message engine_cancelled ''hola'' ''u1'' = Inl (BaseExceptionOnly ''CancelledError'')"
  by (simp add: process_message_def engine_cancelled_def)

end
